theory Spec2Isabelle
  imports Main "HOL-Library.Code_Target_Nat"
begin

section \<open>Strings and characters\<close>

text \<open>
  The repository holds two programs with the same pipeline: the webhook handler
  \<^verbatim>\<open>src/api/index.js\<close> (names ending in \<open>_api\<close> below) and the polling bot
  \<^verbatim>\<open>src/unnamed/part_000\<close> (names ending in \<open>_bot\<close>). Both work on JavaScript strings.
  A JavaScript string is a sequence of UTF-16 code units, and that is the model: a
  \<open>jstring\<close> is the list of the code units, each a number (below 65536 in a string of the
  program). The methods of \<^verbatim>\<open>String\<close> and the patterns, none of which has the flag
  \<^verbatim>\<open>u\<close>, read a string one code unit at a time. \<open>js\<close> writes a string of the program's
  text, which is ASCII, as its code units.
\<close>

type_synonym jstring = "nat list"

definition cu :: "char \<Rightarrow> nat" where
  "cu c = of_char c"

definition js :: "string \<Rightarrow> jstring" where
  "js s = map cu s"

definition in_range :: "char \<Rightarrow> char \<Rightarrow> nat \<Rightarrow> bool" where
  "in_range lo hi c = (cu lo \<le> c \<and> c \<le> cu hi)"

definition lower_az :: "nat \<Rightarrow> bool" where
  "lower_az c = in_range CHR ''a'' CHR ''z'' c"

definition upper_AZ :: "nat \<Rightarrow> bool" where
  "upper_AZ c = in_range CHR ''A'' CHR ''Z'' c"

definition digit :: "nat \<Rightarrow> bool" where
  "digit c = in_range CHR ''0'' CHR ''9'' c"

definition alpha :: "nat \<Rightarrow> bool" where
  "alpha c = (lower_az c \<or> upper_AZ c)"

definition alnum :: "nat \<Rightarrow> bool" where
  \<comment> \<open>the class \<^verbatim>\<open>[a-zA-Z0-9]\<close>, and \<^verbatim>\<open>[A-Z0-9]\<close> under the flag \<^verbatim>\<open>i\<close>: no code unit
      beyond ASCII has a letter of \<^verbatim>\<open>A-Z\<close> as its canonical form\<close>
  "alnum c = (lower_az c \<or> upper_AZ c \<or> digit c)"

definition line_end :: "nat \<Rightarrow> bool" where
  \<comment> \<open>the line terminators of ECMAScript, which the pattern \<^verbatim>\<open>.\<close> does not match: line
      feed, carriage return, U+2028, U+2029\<close>
  "line_end c = (c = 0x0A \<or> c = 0x0D \<or> c = 0x2028 \<or> c = 0x2029)"

definition js_space :: "nat \<Rightarrow> bool" where
  \<comment> \<open>\<^verbatim>\<open>\s\<close>, and what \<^verbatim>\<open>String.prototype.trim\<close> removes: the white space of ECMAScript
      (tab, vertical tab, form feed, U+FEFF and the space separators U+0020, U+00A0,
      U+1680, U+2000 to U+200A, U+202F, U+205F, U+3000) and the line terminators\<close>
  "js_space c =
     (c = 0x09 \<or> c = 0x0B \<or> c = 0x0C \<or> c = 0x20 \<or> c = 0xA0 \<or> c = 0x1680
      \<or> (0x2000 \<le> c \<and> c \<le> 0x200A) \<or> c = 0x202F \<or> c = 0x205F \<or> c = 0x3000
      \<or> c = 0xFEFF \<or> line_end c)"

definition to_lower :: "nat \<Rightarrow> nat" where
  \<comment> \<open>two code units are the same under the flag \<^verbatim>\<open>i\<close> when they have the same canonical
      form; for a pattern character within ASCII that is the same image here, since a
      code unit beyond ASCII is never canonicalized to an ASCII one\<close>
  "to_lower c = (if upper_AZ c then c + 32 else c)"

definition trim :: "jstring \<Rightarrow> jstring" where
  "trim s = rev (dropWhile js_space (rev (dropWhile js_space s)))"

fun startsWith :: "jstring \<Rightarrow> jstring \<Rightarrow> bool" where
  "startsWith s [] = True"
| "startsWith [] (b # p) = False"
| "startsWith (a # s) (b # p) = (a = b \<and> startsWith s p)"

fun split_on :: "(nat \<Rightarrow> bool) \<Rightarrow> jstring \<Rightarrow> jstring list" where
  \<comment> \<open>the pieces between separators, as \<^verbatim>\<open>String.prototype.split\<close> gives them\<close>
  "split_on sep [] = [[]]"
| "split_on sep (a # s) =
     (if sep a then [] # split_on sep s
      else (case split_on sep s of [] \<Rightarrow> [[a]] | g # gs \<Rightarrow> (a # g) # gs))"

fun join_with :: "jstring \<Rightarrow> jstring list \<Rightarrow> jstring" where
  "join_with sep [] = []"
| "join_with sep [g] = g"
| "join_with sep (g # h # gs) = g @ sep @ join_with sep (h # gs)"

section \<open>Regular expressions\<close>

text \<open>
  A backtracking matcher after the ECMAScript semantics. \<open>ms n r x c\<close> lists, in the
  order backtracking tries them, the ways the pattern \<open>r\<close> matches a prefix of \<open>x\<close>,
  where \<open>x\<close> is what is left of an input of length \<open>n\<close>; each way is the text left
  unread and the captures. A quantifier is greedy, and an iteration that reads nothing
  is abandoned, as in ECMAScript.
\<close>

type_synonym caps = "nat \<Rightarrow> jstring option"

datatype regex =
    Chs "nat \<Rightarrow> bool"
  | Eps
  | Seq regex regex
  | Alt regex regex
  | Star regex
  | Grp nat regex
  | Bos
  | Eos

fun ms :: "nat \<Rightarrow> regex \<Rightarrow> jstring \<Rightarrow> caps \<Rightarrow> (jstring \<times> caps) list" where
  "ms n (Chs p) [] c = []"
| "ms n (Chs p) (a # x) c = (if p a then [(x, c)] else [])"
| "ms n Eps x c = [(x, c)]"
| "ms n (Seq r1 r2) x c = concat (map (\<lambda>q. ms n r2 (fst q) (snd q)) (ms n r1 x c))"
| "ms n (Alt r1 r2) x c = ms n r1 x c @ ms n r2 x c"
| "ms n (Star r) x c =
     concat (map (\<lambda>q. if length (fst q) < length x then ms n (Star r) (fst q) (snd q) else [])
                 (ms n r x c)) @ [(x, c)]"
| "ms n (Grp k r) x c =
     map (\<lambda>q. (fst q, (snd q)(k \<mapsto> take (length x - length (fst q)) x))) (ms n r x c)"
| "ms n Bos x c = (if length x = n then [(x, c)] else [])"
| "ms n Eos x c = (if x = [] then [(x, c)] else [])"

text \<open>
  \<^verbatim>\<open>RegExp.prototype.exec\<close> for a pattern without the flags \<^verbatim>\<open>g\<close> and \<^verbatim>\<open>y\<close> (none of
  the patterns has them): the first start position with a match and, there, the first
  match in backtracking order. The result is the matched text \<^verbatim>\<open>m[0]\<close> and the captures
  \<^verbatim>\<open>m[1]\<close>, \<^verbatim>\<open>m[2]\<close>, ...; \<open>None\<close> is \<^verbatim>\<open>null\<close>.
\<close>

fun search :: "nat \<Rightarrow> regex \<Rightarrow> jstring \<Rightarrow> (jstring \<times> caps) option" where
  "search n r [] =
     (case ms n r [] (\<lambda>k. None) of [] \<Rightarrow> None | q # qs \<Rightarrow> Some ([], snd q))"
| "search n r (a # x) =
     (case ms n r (a # x) (\<lambda>k. None) of
        [] \<Rightarrow> search n r x
      | q # qs \<Rightarrow> Some (take (length (a # x) - length (fst q)) (a # x), snd q))"

definition regexp_exec :: "regex \<Rightarrow> jstring \<Rightarrow> (jstring \<times> caps) option" where
  "regexp_exec r s = search (length s) r s"

definition regexp_test :: "regex \<Rightarrow> jstring \<Rightarrow> bool" where
  "regexp_test r s = (regexp_exec r s \<noteq> None)"

text \<open>The derived forms the patterns are written with.\<close>

definition Plus :: "regex \<Rightarrow> regex" where
  "Plus r = Seq r (Star r)"

definition Opt :: "regex \<Rightarrow> regex" where
  "Opt r = Alt r Eps"

definition Chr :: "nat \<Rightarrow> regex" where
  "Chr a = Chs (\<lambda>c. c = a)"

definition ChrI :: "nat \<Rightarrow> regex" where
  \<comment> \<open>a literal character under the flag \<^verbatim>\<open>i\<close>\<close>
  "ChrI a = Chs (\<lambda>c. to_lower c = to_lower a)"

fun Str :: "jstring \<Rightarrow> regex" where
  "Str [] = Eps"
| "Str (a # s) = Seq (Chr a) (Str s)"

fun StrI :: "jstring \<Rightarrow> regex" where
  "StrI [] = Eps"
| "StrI (a # s) = Seq (ChrI a) (StrI s)"

fun Alts :: "regex list \<Rightarrow> regex" where
  "Alts [] = Chs (\<lambda>c. False)"
| "Alts [r] = r"
| "Alts (r # rs) = Alt r (Alts rs)"

fun Rep :: "nat \<Rightarrow> regex \<Rightarrow> regex" where
  \<comment> \<open>\<^verbatim>\<open>r{k}\<close>\<close>
  "Rep 0 r = Eps"
| "Rep (Suc k) r = Seq r (Rep k r)"

section \<open>The patterns of the two programs\<close>

text \<open>
  \<^verbatim>\<open>/^[a-zA-Z0-9]+(?:-[a-zA-Z0-9]+)*-[0-9]{1,3}$/\<close>, the same in both programs. The
  bounded repetition \<^verbatim>\<open>[0-9]{1,3}\<close> is one digit and, greedily, up to two more.
\<close>

definition tagBody :: regex where
  "tagBody =
     Seq (Plus (Chs alnum))
      (Seq (Star (Seq (Chr (cu CHR ''-'')) (Plus (Chs alnum))))
        (Seq (Chr (cu CHR ''-''))
          (Seq (Chs digit) (Opt (Seq (Chs digit) (Opt (Chs digit)))))))"

definition tagRegex :: regex where
  "tagRegex = Seq Bos (Seq tagBody Eos)"

text \<open>\<^verbatim>\<open>/(https?:\/\/[^\s]+)/\<close>, the same in both programs.\<close>

definition urlRegex :: regex where
  "urlRegex =
     Grp 1 (Seq (Str (js ''http'')) (Seq (Opt (Chr (cu CHR ''s'')))
             (Seq (Str (js ''://'')) (Plus (Chs (\<lambda>c. \<not> js_space c))))))"

text \<open>
  The marketplace alternatives \<^verbatim>\<open>(com|co\.uk|de|fr|es|it|ca|com\.au|co\.jp|cn|in)\<close>,
  in the order the patterns list them, as capture group \<open>k\<close>.
\<close>

definition marketplace_endings :: "jstring list" where
  "marketplace_endings =
     map js [''com'', ''co.uk'', ''de'', ''fr'', ''es'', ''it'', ''ca'', ''com.au'', ''co.jp'',
             ''cn'', ''in'']"

definition marketplaces :: "nat \<Rightarrow> regex" where
  "marketplaces k = Grp k (Alts (map StrI marketplace_endings))"

text \<open>
  \<^verbatim>\<open>/amazon\.(com|co\.uk|de|fr|es|it|ca|com\.au|co\.jp|cn|in)/i\<close> of
  \<^verbatim>\<open>src/api/index.js\<close>.
\<close>

definition anyAmazonDomainRegex :: regex where
  "anyAmazonDomainRegex = Seq (StrI (js ''amazon.'')) (marketplaces 1)"

text \<open>
  The product tail \<^verbatim>\<open>\/.*(?:dp|gp\/product)\/([A-Z0-9]{10})\<close> under the flag \<^verbatim>\<open>i\<close>,
  with the ASIN as capture group \<open>k\<close>.
\<close>

definition productTail :: "nat \<Rightarrow> regex" where
  "productTail k =
     Seq (Chr (cu CHR ''/''))
      (Seq (Star (Chs (\<lambda>c. \<not> line_end c)))
        (Seq (Alt (StrI (js ''dp'')) (StrI (js ''gp/product'')))
          (Seq (Chr (cu CHR ''/'')) (Grp k (Rep 10 (Chs alnum))))))"

text \<open>
  \<^verbatim>\<open>/(amazon\.(com|...|in))\/.*(?:dp|gp\/product)\/([A-Z0-9]{10})/i\<close> of
  \<^verbatim>\<open>convertToAffiliateLink\<close> in the bot, and
  \<^verbatim>\<open>/amazon\.(com|...|in)\/.*(?:dp|gp\/product)\/([A-Z0-9]{10})/i\<close> of its message
  handler.
\<close>

definition amazonLongRegex :: regex where
  "amazonLongRegex = Seq (Grp 1 (Seq (StrI (js ''amazon.'')) (marketplaces 2))) (productTail 3)"

definition amazonLongLinkRegex :: regex where
  "amazonLongLinkRegex = Seq (StrI (js ''amazon.'')) (Seq (marketplaces 1) (productTail 2))"

text \<open>
  \<^verbatim>\<open>/(amzn\.to|a\.co|amzn-to\.co|amazon\.in\/gp\/product)\//i\<close>, in the bot both
  \<^verbatim>\<open>shortLinkRegex\<close> of \<^verbatim>\<open>resolveShortAmazonLink\<close> and \<^verbatim>\<open>amazonShortLinkRegex\<close> of
  the message handler.
\<close>

definition shortLinkRegex :: regex where
  "shortLinkRegex =
     Seq (Grp 1 (Alts [StrI (js ''amzn.to''), StrI (js ''a.co''), StrI (js ''amzn-to.co''),
                       StrI (js ''amazon.in/gp/product'')]))
         (Chr (cu CHR ''/''))"

section \<open>The tag validator\<close>

definition isValidAmazonTag :: "jstring \<Rightarrow> bool" where
  "isValidAmazonTag tag = regexp_test tagRegex tag"

section \<open>The platform: URL and URLSearchParams\<close>

text \<open>
  \<^verbatim>\<open>convertToAffiliateLink\<close> of \<^verbatim>\<open>src/api/index.js\<close> uses the platform classes
  \<^verbatim>\<open>URL\<close> and \<^verbatim>\<open>URLSearchParams\<close>. They are not code of the repository; they are
  modelled after the WHATWG URL Standard, which the platform implements. A parsed URL is
  the standard's URL record, with the host in its serialised form.
\<close>

datatype url_path = Opaque jstring | Segments "jstring list"

record url =
  scheme :: jstring
  username :: jstring
  password :: jstring
  host :: "jstring option"
  port :: "nat option"
  path :: url_path
  query :: "jstring option"
  fragment :: "jstring option"

subsection \<open>Scalar values and UTF-8\<close>

text \<open>
  The platform classes take their string arguments as scalar value strings: a surrogate
  code unit that is not part of a pair is read as U+FFFD. \<open>code_points\<close> gives the code
  points of a string read so (a number that is no code unit is kept if it is a code
  point and read as U+FFFD otherwise, so that reading twice is reading once), \<open>units\<close>
  the code units of a code point.
\<close>

definition high_surrogate :: "nat \<Rightarrow> bool" where
  "high_surrogate c = (0xD800 \<le> c \<and> c \<le> 0xDBFF)"

definition low_surrogate :: "nat \<Rightarrow> bool" where
  "low_surrogate c = (0xDC00 \<le> c \<and> c \<le> 0xDFFF)"

definition scalar :: "nat \<Rightarrow> nat" where
  "scalar c = (if high_surrogate c \<or> low_surrogate c \<or> 0x10FFFF < c then 0xFFFD else c)"

fun code_points :: "jstring \<Rightarrow> nat list" where
  "code_points (h # l # s) =
     (if high_surrogate h \<and> low_surrogate l
      then (0x10000 + (h - 0xD800) * 0x400 + (l - 0xDC00)) # code_points s
      else scalar h # code_points (l # s))"
| "code_points [c] = [scalar c]"
| "code_points [] = []"

definition units :: "nat \<Rightarrow> jstring" where
  "units p =
     (if p < 0x10000 then [p]
      else [0xD800 + (p - 0x10000) div 0x400, 0xDC00 + (p - 0x10000) mod 0x400])"

definition usv :: "jstring \<Rightarrow> jstring" where
  \<comment> \<open>the conversion of a string to a scalar value string\<close>
  "usv s = concat (map units (code_points s))"

definition utf8 :: "nat \<Rightarrow> nat list" where
  \<comment> \<open>the bytes of a code point\<close>
  "utf8 p =
     (if p < 0x80 then [p]
      else if p < 0x800 then [0xC0 + p div 0x40, 0x80 + p mod 0x40]
      else if p < 0x10000
      then [0xE0 + p div 0x1000, 0x80 + p div 0x40 mod 0x40, 0x80 + p mod 0x40]
      else [0xF0 + p div 0x40000, 0x80 + p div 0x1000 mod 0x40, 0x80 + p div 0x40 mod 0x40,
            0x80 + p mod 0x40])"

definition utf8_encode :: "jstring \<Rightarrow> nat list" where
  "utf8_encode s = concat (map utf8 (code_points s))"

text \<open>
  The UTF-8 decoder of the Encoding Standard, which replaces an ill-formed sequence by
  U+FFFD: \<open>p\<close> is the code point read so far, \<open>need\<close> the number of bytes it still
  needs, \<open>lo\<close> and \<open>hi\<close> the bounds of the next byte.
\<close>

fun utf8_decoder :: "nat \<Rightarrow> nat \<Rightarrow> nat \<Rightarrow> nat \<Rightarrow> nat list \<Rightarrow> nat list" where
  "utf8_decoder p need lo hi [] = (if need = 0 then [] else [0xFFFD])"
| "utf8_decoder p need lo hi (b # bs) =
     (if need = 0 then
        (if b \<le> 0x7F then b # utf8_decoder 0 0 0x80 0xBF bs
         else if 0xC2 \<le> b \<and> b \<le> 0xDF then utf8_decoder (b - 0xC0) 1 0x80 0xBF bs
         else if 0xE0 \<le> b \<and> b \<le> 0xEF
         then utf8_decoder (b - 0xE0) 2 (if b = 0xE0 then 0xA0 else 0x80)
                (if b = 0xED then 0x9F else 0xBF) bs
         else if 0xF0 \<le> b \<and> b \<le> 0xF4
         then utf8_decoder (b - 0xF0) 3 (if b = 0xF0 then 0x90 else 0x80)
                (if b = 0xF4 then 0x8F else 0xBF) bs
         else 0xFFFD # utf8_decoder 0 0 0x80 0xBF bs)
      else if b < lo \<or> hi < b then 0xFFFD # utf8_decoder 0 0 0x80 0xBF (b # bs)
      else if need = 1 then (p * 0x40 + (b - 0x80)) # utf8_decoder 0 0 0x80 0xBF bs
      else utf8_decoder (p * 0x40 + (b - 0x80)) (need - 1) 0x80 0xBF bs)"

definition utf8_decode :: "nat list \<Rightarrow> jstring" where
  \<comment> \<open>UTF-8 decode without BOM\<close>
  "utf8_decode bs = concat (map units (utf8_decoder 0 0 0x80 0xBF bs))"

subsection \<open>Percent-encoding\<close>

definition hex_char :: "nat \<Rightarrow> nat" where
  \<comment> \<open>the upper-case hexadecimal digit of a number below 16\<close>
  "hex_char k = (if k < 10 then cu CHR ''0'' + k else cu CHR ''A'' + (k - 10))"

definition is_hex :: "nat \<Rightarrow> bool" where
  "is_hex c = (digit c \<or> in_range CHR ''a'' CHR ''f'' c \<or> in_range CHR ''A'' CHR ''F'' c)"

definition unhex :: "nat \<Rightarrow> nat" where
  "unhex c =
     (if digit c then c - cu CHR ''0''
      else if in_range CHR ''a'' CHR ''f'' c then c - cu CHR ''a'' + 10
      else c - cu CHR ''A'' + 10)"

definition pct :: "nat \<Rightarrow> jstring" where
  \<comment> \<open>percent-encode one byte\<close>
  "pct b = [cu CHR ''%'', hex_char (b div 16), hex_char (b mod 16)]"

definition percent_encode :: "(nat \<Rightarrow> bool) \<Rightarrow> jstring \<Rightarrow> jstring" where
  \<comment> \<open>UTF-8 percent-encode the code points of a string that are in the set \<open>enc\<close>\<close>
  "percent_encode enc s =
     concat (map (\<lambda>p. if enc p then concat (map pct (utf8 p)) else [p]) (code_points s))"

fun percent_decode :: "nat list \<Rightarrow> nat list" where
  \<comment> \<open>from bytes to bytes\<close>
  "percent_decode (c # h # l # t) =
     (if c = cu CHR ''%'' \<and> is_hex h \<and> is_hex l
      then (16 * unhex h + unhex l) # percent_decode t
      else c # percent_decode (h # l # t))"
| "percent_decode (c # s) = c # percent_decode s"
| "percent_decode [] = []"

definition c0_control_set :: "nat \<Rightarrow> bool" where
  \<comment> \<open>the C0 control percent-encode set: C0 controls and all code points above \<^verbatim>\<open>~\<close>\<close>
  "c0_control_set c = (c < 0x20 \<or> 0x7E < c)"

definition query_set :: "nat \<Rightarrow> bool" where
  "query_set c = (c0_control_set c \<or> c \<in> set (js '' #<>'') \<or> c = 0x22)"

definition special_query_set :: "nat \<Rightarrow> bool" where
  "special_query_set c = (query_set c \<or> c = 0x27)"

definition fragment_set :: "nat \<Rightarrow> bool" where
  "fragment_set c = (c0_control_set c \<or> c \<in> set (js '' <>'') \<or> c = 0x22 \<or> c = 0x60)"

definition path_set :: "nat \<Rightarrow> bool" where
  "path_set c = (query_set c \<or> c \<in> set (js ''?^{}'') \<or> c = 0x60)"

definition userinfo_set :: "nat \<Rightarrow> bool" where
  "userinfo_set c = (path_set c \<or> c \<in> set (js ''/:;=@[]|'') \<or> c = 0x5C)"

definition urlencoded_set :: "nat \<Rightarrow> bool" where
  \<comment> \<open>the application/x-www-form-urlencoded percent-encode set: everything but ASCII
      alphanumerics and \<^verbatim>\<open>*-._\<close>\<close>
  "urlencoded_set c = (\<not> (alnum c \<or> c \<in> set (js ''*-._'')))"

subsection \<open>Serialising a URL: \<^verbatim>\<open>href\<close> and \<^verbatim>\<open>toString()\<close>\<close>

fun show_nat :: "nat \<Rightarrow> jstring" where
  "show_nat k =
     (if k < 10 then [cu CHR ''0'' + k] else show_nat (k div 10) @ [cu CHR ''0'' + k mod 10])"

definition is_special :: "jstring \<Rightarrow> bool" where
  "is_special s = (s \<in> set (map js [''ftp'', ''file'', ''http'', ''https'', ''ws'', ''wss'']))"

definition path_string :: "url_path \<Rightarrow> jstring" where
  "path_string p =
     (case p of Opaque s \<Rightarrow> s | Segments gs \<Rightarrow> concat (map (\<lambda>g. cu CHR ''/'' # g) gs))"

definition origin_path :: "url \<Rightarrow> jstring" where
  \<comment> \<open>the serialisation up to and including the path\<close>
  "origin_path u =
     scheme u @ js '':'' @
     (case host u of
        Some h \<Rightarrow>
          js ''//'' @
          (if username u \<noteq> [] \<or> password u \<noteq> []
           then username u @ (if password u \<noteq> [] then js '':'' @ password u else []) @ js ''@''
           else []) @
          h @ (case port u of None \<Rightarrow> [] | Some k \<Rightarrow> js '':'' @ show_nat k)
      | None \<Rightarrow>
          (case path u of
             Segments (g # h # gs) \<Rightarrow> (if g = [] then js ''/.'' else [])
           | _ \<Rightarrow> [])) @
     path_string (path u)"

definition href :: "url \<Rightarrow> jstring" where
  "href u =
     origin_path u @
     (case query u of None \<Rightarrow> [] | Some q \<Rightarrow> cu CHR ''?'' # q) @
     (case fragment u of None \<Rightarrow> [] | Some f \<Rightarrow> cu CHR ''#'' # f)"

subsection \<open>The \<^verbatim>\<open>search\<close> attribute\<close>

definition search_get :: "url \<Rightarrow> jstring" where
  "search_get u =
     (case query u of None \<Rightarrow> [] | Some q \<Rightarrow> if q = [] then [] else cu CHR ''?'' # q)"

definition strip_leading_question :: "jstring \<Rightarrow> jstring" where
  "strip_leading_question s = (case s of [] \<Rightarrow> [] | a # t \<Rightarrow> if a = cu CHR ''?'' then t else s)"

definition tab_or_newline :: "nat \<Rightarrow> bool" where
  "tab_or_newline c = (c = 0x09 \<or> c = 0x0A \<or> c = 0x0D)"

definition search_set :: "url \<Rightarrow> jstring \<Rightarrow> url" where
  \<comment> \<open>the setter: the empty string removes the query (and then trailing spaces of an
      opaque path, when there is no fragment); any other value is parsed in the standard's
      query state\<close>
  "search_set u v =
     (if v = [] then
        (case path u of
           Opaque s \<Rightarrow>
             (if fragment u = None
              then u\<lparr>query := None, path := Opaque (rev (dropWhile (\<lambda>c. c = 0x20) (rev s)))\<rparr>
              else u\<lparr>query := None\<rparr>)
         | Segments gs \<Rightarrow> u\<lparr>query := None\<rparr>)
      else u\<lparr>query := Some (percent_encode
                  (if is_special (scheme u) then special_query_set else query_set)
                  (filter (\<lambda>c. \<not> tab_or_newline c) (strip_leading_question v)))\<rparr>)"

subsection \<open>\<^verbatim>\<open>URLSearchParams\<close>\<close>

type_synonym params = "(jstring \<times> jstring) list"

definition plus_to_space :: "nat list \<Rightarrow> nat list" where
  "plus_to_space s = map (\<lambda>c. if c = cu CHR ''+'' then 0x20 else c) s"

definition parse_pair :: "nat list \<Rightarrow> jstring \<times> jstring" where
  \<comment> \<open>a name and a value from the bytes between two \<^verbatim>\<open>&\<close>\<close>
  "parse_pair b =
     (utf8_decode (percent_decode (plus_to_space (takeWhile (\<lambda>c. c \<noteq> cu CHR ''='') b))),
      utf8_decode (percent_decode (plus_to_space
                     (drop 1 (dropWhile (\<lambda>c. c \<noteq> cu CHR ''='') b)))))"

definition urlencoded_parse :: "jstring \<Rightarrow> params" where
  \<comment> \<open>the application/x-www-form-urlencoded string parser\<close>
  "urlencoded_parse s =
     map parse_pair (filter (\<lambda>b. b \<noteq> []) (split_on (\<lambda>c. c = cu CHR ''&'') (utf8_encode s)))"

definition urlencoded_bytes :: "jstring \<Rightarrow> jstring" where
  \<comment> \<open>percent-encode after encoding, with a space as \<^verbatim>\<open>+\<close>\<close>
  "urlencoded_bytes s =
     concat (map (\<lambda>p. if p = 0x20 then js ''+''
                       else if urlencoded_set p then concat (map pct (utf8 p)) else [p])
                 (code_points s))"

definition urlencoded_serialize :: "params \<Rightarrow> jstring" where
  "urlencoded_serialize ps =
     join_with (js ''&'')
       (map (\<lambda>p. urlencoded_bytes (fst p) @ js ''='' @ urlencoded_bytes (snd p)) ps)"

definition URLSearchParams :: "jstring \<Rightarrow> params" where
  \<comment> \<open>\<^verbatim>\<open>new URLSearchParams(init)\<close> for a string\<close>
  "URLSearchParams init = urlencoded_parse (strip_leading_question init)"

definition params_delete :: "jstring \<Rightarrow> params \<Rightarrow> params" where
  "params_delete name ps = filter (\<lambda>p. fst p \<noteq> name) ps"

fun params_set :: "jstring \<Rightarrow> jstring \<Rightarrow> params \<Rightarrow> params" where
  \<comment> \<open>the first pair of that name takes the value and the others go; with no such pair
      a new one is appended\<close>
  "params_set name v [] = [(name, v)]"
| "params_set name v (p # ps) =
     (if fst p = name then (name, v) # params_delete name ps else p # params_set name v ps)"

definition params_toString :: "params \<Rightarrow> jstring" where
  "params_toString ps = urlencoded_serialize ps"

subsection \<open>The URL constructor\<close>

text \<open>
  \<^verbatim>\<open>new URL(s)\<close> either gives a URL record or throws. \<open>parseURL\<close> is the standard's parser
  on the inputs where the model follows it: an absolute URL with the scheme http, https,
  ws, wss or ftp whose host is an ASCII domain. There it answers \<open>Returns\<close> (the record) or
  \<open>Throws\<close> as the standard does. For every other input (the scheme file or a scheme that
  is not special, a host that is an IP address or needs the Unicode tables of IDNA) it
  answers \<open>Beyond\<close>, which says nothing about the platform.

  The functions of the program take the constructor as an argument \<open>U\<close>, with \<open>None\<close> for
  a throw. \<open>conforms U\<close> says that \<open>U\<close> answers as \<open>parseURL\<close> wherever that is not \<open>Beyond\<close>:
  this is what is assumed of the platform. \<open>newURL\<close> is one such constructor, which the
  examples run with; it throws where \<open>parseURL\<close> is \<open>Beyond\<close>.
\<close>

datatype 'a outcome = Throws | Returns 'a | Beyond

definition c0_or_space :: "nat \<Rightarrow> bool" where
  "c0_or_space c = (c \<le> 0x20)"

definition scheme_char :: "nat \<Rightarrow> bool" where
  "scheme_char c = (alnum c \<or> c \<in> set (js ''+-.''))"

definition slash :: "nat \<Rightarrow> bool" where
  "slash c = (c = cu CHR ''/'' \<or> c = 0x5C)"

definition forbidden_domain :: "nat \<Rightarrow> bool" where
  \<comment> \<open>the forbidden domain code points\<close>
  "forbidden_domain c =
     (c \<le> 0x20 \<or> c = 0x7F \<or> c \<in> set (js ''#/:<>?@[]^|%'') \<or> c = 0x5C)"

definition default_port :: "jstring \<Rightarrow> nat option" where
  "default_port s =
     (if s = js ''http'' \<or> s = js ''ws'' then Some 80
      else if s = js ''https'' \<or> s = js ''wss'' then Some 443
      else if s = js ''ftp'' then Some 21 else None)"

definition read_nat :: "jstring \<Rightarrow> nat" where
  "read_nat s = foldl (\<lambda>k c. 10 * k + (c - cu CHR ''0'')) 0 s"

definition single_dot :: "jstring \<Rightarrow> bool" where
  "single_dot g = (map to_lower g \<in> set (map js [''.'', ''%2e'']))"

definition double_dot :: "jstring \<Rightarrow> bool" where
  "double_dot g = (map to_lower g \<in> set (map js [''..'', ''.%2e'', ''%2e.'', ''%2e%2e'']))"

fun path_segments :: "jstring list \<Rightarrow> jstring list \<Rightarrow> jstring list" where
  \<comment> \<open>the standard's path state over the pieces between slashes, for a special scheme
      other than file\<close>
  "path_segments acc [] = acc"
| "path_segments acc [g] =
     (if double_dot g then butlast acc @ [[]]
      else if single_dot g then acc @ [[]]
      else acc @ [percent_encode path_set g])"
| "path_segments acc (g # gs) =
     path_segments
       (if double_dot g then butlast acc
        else if single_dot g then acc
        else acc @ [percent_encode path_set g]) gs"

definition numeric_label :: "jstring \<Rightarrow> bool" where
  \<comment> \<open>a last label, in lower case, that makes the host an IPv4 address for the standard:
      digits only, or \<^verbatim>\<open>0x\<close> and then hexadecimal digits only\<close>
  "numeric_label g =
     (g \<noteq> [] \<and> (list_all digit g \<or> (startsWith g (js ''0x'') \<and> list_all is_hex (drop 2 g))))"

definition parse_host :: "jstring \<Rightarrow> jstring outcome" where
  \<comment> \<open>the host parser for a special scheme. It is \<open>Beyond\<close> for an IPv6 address, a host
      with a character beyond ASCII (also percent-encoded), a punycode label and an IPv4
      address\<close>
  "parse_host h =
     (let d = map to_lower (percent_decode h);
          labels = split_on (\<lambda>c. c = cu CHR ''.'') d;
          labels = (if 1 < length labels \<and> last labels = [] then butlast labels else labels)
      in if startsWith h (js ''['') \<or> list_ex (\<lambda>c. 0x7F < c) h \<or> list_ex (\<lambda>c. 0x7F < c) d
            \<or> list_ex (\<lambda>g. startsWith g (js ''xn--'')) (split_on (\<lambda>c. c = cu CHR ''.'') d)
         then Beyond
         else if d = [] \<or> list_ex forbidden_domain d then Throws
         else if numeric_label (last labels) then Beyond
         else Returns d)"

definition parse_port :: "jstring \<Rightarrow> jstring \<Rightarrow> nat option option" where
  \<comment> \<open>\<open>None\<close>: failure; \<open>Some None\<close>: no port, or the scheme's default port\<close>
  "parse_port sch p =
     (if \<not> list_all digit p then None
      else if p = [] then Some None
      else if 65535 < read_nat p then None
      else if default_port sch = Some (read_nat p) then Some None
      else Some (Some (read_nat p)))"

definition parse_authority :: "jstring \<Rightarrow> jstring \<Rightarrow> jstring \<Rightarrow> url outcome" where
  \<comment> \<open>the authority \<open>auth\<close> and what follows it, for the special scheme \<open>sch\<close>\<close>
  "parse_authority sch auth rest =
     (let creds = rev (drop 1 (dropWhile (\<lambda>c. c \<noteq> cu CHR ''@'') (rev auth)));
          hostport = rev (takeWhile (\<lambda>c. c \<noteq> cu CHR ''@'') (rev auth));
          user = takeWhile (\<lambda>c. c \<noteq> cu CHR '':'') creds;
          pass = drop 1 (dropWhile (\<lambda>c. c \<noteq> cu CHR '':'') creds);
          h = takeWhile (\<lambda>c. c \<noteq> cu CHR '':'') hostport;
          p = drop 1 (dropWhile (\<lambda>c. c \<noteq> cu CHR '':'') hostport);
          pathpart = takeWhile (\<lambda>c. c \<noteq> cu CHR ''?'' \<and> c \<noteq> cu CHR ''#'') rest;
          after = dropWhile (\<lambda>c. c \<noteq> cu CHR ''?'' \<and> c \<noteq> cu CHR ''#'') rest;
          q = (case after of
                 [] \<Rightarrow> None
               | a # t \<Rightarrow> if a = cu CHR ''?''
                          then Some (percent_encode special_query_set
                                       (takeWhile (\<lambda>c. c \<noteq> cu CHR ''#'') t))
                          else None);
          f = (case dropWhile (\<lambda>c. c \<noteq> cu CHR ''#'') after of
                 [] \<Rightarrow> None
               | a # t \<Rightarrow> Some (percent_encode fragment_set t))
      in case parse_host h of
           Beyond \<Rightarrow> Beyond
         | Throws \<Rightarrow> Throws
         | Returns d \<Rightarrow>
             (case parse_port sch p of
                None \<Rightarrow> Throws
              | Some pt \<Rightarrow>
                  Returns \<lparr>scheme = sch,
                        username = percent_encode userinfo_set user,
                        password = percent_encode userinfo_set pass,
                        host = Some d, port = pt,
                        path = Segments (path_segments []
                                 (split_on slash
                                    (case pathpart of
                                       [] \<Rightarrow> []
                                     | a # t \<Rightarrow> if slash a then t else pathpart))),
                        query = q, fragment = f\<rparr>))"

definition parseURL :: "jstring \<Rightarrow> url outcome" where
  "parseURL s =
     (let s0 = code_points s;
          s1 = rev (dropWhile c0_or_space (rev (dropWhile c0_or_space s0)));
          s2 = filter (\<lambda>c. \<not> tab_or_newline c) s1;
          sch = map to_lower (takeWhile scheme_char s2);
          rest = dropWhile scheme_char s2
      in case s2 of
           [] \<Rightarrow> Throws
         | a # t \<Rightarrow>
             if \<not> alpha a \<or> \<not> startsWith rest (js '':'') then Throws
             else if sch \<notin> set (map js [''http'', ''https'', ''ws'', ''wss'', ''ftp'']) then Beyond
             else
               (let r1 = dropWhile slash (drop 1 rest);
                    auth = takeWhile (\<lambda>c. \<not> slash c \<and> c \<noteq> cu CHR ''?'' \<and> c \<noteq> cu CHR ''#'') r1;
                    r2 = dropWhile (\<lambda>c. \<not> slash c \<and> c \<noteq> cu CHR ''?'' \<and> c \<noteq> cu CHR ''#'') r1
                in parse_authority sch auth r2))"

definition conforms :: "(jstring \<Rightarrow> url option) \<Rightarrow> bool" where
  "conforms U =
     (\<forall>s. case parseURL s of Throws \<Rightarrow> U s = None | Returns u \<Rightarrow> U s = Some u | Beyond \<Rightarrow> True)"

definition newURL :: "jstring \<Rightarrow> url option" where
  "newURL s = (case parseURL s of Returns u \<Rightarrow> Some u | Throws \<Rightarrow> None | Beyond \<Rightarrow> None)"

section \<open>The affiliate rewriter\<close>

text \<open>
  The tag argument is \<^verbatim>\<open>userTags[userId]\<close>: a string, or \<^verbatim>\<open>undefined\<close> (\<open>None\<close>) for a
  user without a tag. \<^verbatim>\<open>!tag\<close> holds for \<^verbatim>\<open>undefined\<close> and for the empty string.
\<close>

definition falsy :: "jstring option \<Rightarrow> bool" where
  "falsy v = (v = None \<or> v = Some [])"

definition js_string :: "jstring option \<Rightarrow> jstring" where
  \<comment> \<open>a value inside a template literal\<close>
  "js_string v = (case v of None \<Rightarrow> js ''undefined'' | Some s \<Rightarrow> s)"

definition affiliate_params :: "jstring list" where
  \<comment> \<open>the parameters \<^verbatim>\<open>src/api/index.js\<close> deletes, in its order\<close>
  "affiliate_params = map js [''tag'', ''linkCode'', ''ascsubtag'', ''creativeASIN'', ''ref_'']"

text \<open>
  \<^verbatim>\<open>src/api/index.js\<close>: query surgery on the parsed URL. \<open>U\<close> is the platform's URL
  constructor; \<^verbatim>\<open>new URL(url)\<close> is the only call of the \<^verbatim>\<open>try\<close> block that can throw,
  and the \<^verbatim>\<open>catch\<close> returns the input.
\<close>

definition convertToAffiliateLink_api ::
    "(jstring \<Rightarrow> url option) \<Rightarrow> jstring \<Rightarrow> jstring option \<Rightarrow> jstring" where
  "convertToAffiliateLink_api U link tag =
     (if falsy tag then link
      else
        (case U link of
           None \<Rightarrow> link
         | Some urlObj \<Rightarrow>
             (let params = URLSearchParams (search_get urlObj);
                  params = params_delete (js ''tag'') params;
                  params = params_delete (js ''linkCode'') params;
                  params = params_delete (js ''ascsubtag'') params;
                  params = params_delete (js ''creativeASIN'') params;
                  params = params_delete (js ''ref_'') params;
                  params = params_set (js ''tag'') (usv (js_string tag)) params
              in href (search_set urlObj (params_toString params)))))"

text \<open>
  \<^verbatim>\<open>src/unnamed/part_000\<close>: a new URL from the marketplace domain \<^verbatim>\<open>match[1]\<close> and the
  ASIN \<^verbatim>\<open>match[3]\<close>.
\<close>

definition convertToAffiliateLink_bot :: "jstring \<Rightarrow> jstring option \<Rightarrow> jstring" where
  "convertToAffiliateLink_bot link tag =
     (if falsy tag then link
      else
        (case regexp_exec amazonLongRegex link of
           Some m \<Rightarrow>
             js ''https://'' @ js_string (snd m 1) @ js ''/dp/'' @ js_string (snd m 3) @
             js ''?tag='' @ js_string tag
         | None \<Rightarrow> link))"

section \<open>The redirect resolver\<close>

text \<open>
  Modelled from the spec: the HTTP client \<^verbatim>\<open>axios.get(url, { maxRedirects: 10 })\<close> is a
  library, not code of the repository. After section 4.3 of the spec it issues a GET that
  follows redirects, at most \<open>maxRedirects\<close> of them, and fails on a network error, on a
  redirect beyond the cap and on a terminal status that is not a success (2xx); on
  success \<^verbatim>\<open>response.request.res.responseUrl\<close> is the URL it landed on. The network is a
  function from a URL to what a GET of it answers.
\<close>

datatype http_answer = Redirect jstring | Status nat | NetworkError

datatype http_failure = NetworkFailure | TooManyRedirects | BadStatus nat

fun axios_get :: "(jstring \<Rightarrow> http_answer) \<Rightarrow> nat \<Rightarrow> jstring \<Rightarrow> http_failure + jstring" where
  "axios_get net maxRedirects link =
     (case net link of
        NetworkError \<Rightarrow> Inl NetworkFailure
      | Status code \<Rightarrow> if 200 \<le> code \<and> code < 300 then Inr link else Inl (BadStatus code)
      | Redirect target \<Rightarrow>
          (case maxRedirects of
             0 \<Rightarrow> Inl TooManyRedirects
           | Suc k \<Rightarrow> axios_get net k target))"

declare axios_get.simps [simp del]

text \<open>What a handler does, in order.\<close>

datatype reply =
    AskForTag            \<comment> \<open>"Please send me your Amazon Associate Tag now. ..."\<close>
  | TagSaved jstring     \<comment> \<open>"Thank you! Your Amazon Associate Tag has been set to: ..."\<close>
  | TagRejected          \<comment> \<open>api: "Please provide a valid (non-empty) Amazon Associate Tag.
                              Example: yourstore-20."; bot: "That does not appear to be a
                              valid Amazon Associate Tag format. Please try again ..."\<close>
  | WelcomeBack jstring  \<comment> \<open>"Welcome back! ... Your current Amazon Associate Tag is: ..."\<close>
  | Welcome              \<comment> \<open>"Hello! ... please send me your Amazon Associate Tag by using the
                              /settag command."\<close>
  | UnknownCommand       \<comment> \<open>"Sorry, I don't recognize that command. ..."\<close>
  | NotAUrl              \<comment> \<open>api: "That doesn't look like a valid URL. ..."\<close>
  | Resolving            \<comment> \<open>"Detecting shortened link... Please wait ..."\<close>
  | ResolveFailed        \<comment> \<open>"Sorry, I could not resolve the provided link. ..."\<close>
  | AffiliateLink jstring\<comment> \<open>"Here's your affiliate link:" and the link\<close>
  | ConvertFailed        \<comment> \<open>api: "The link was resolved, but I could not convert it to an
                              affiliate link. Please ensure it's a valid Amazon URL."; bot:
                              "Could not convert the link. Please ensure it's a valid Amazon
                              product page URL (e.g., contains /dp/ or /gp/product/ and an
                              ASIN)."\<close>
  | NotAmazonLink        \<comment> \<open>"That doesn't look like a valid Amazon product link. Please send
                              a full Amazon URL ... or a short one ..."\<close>

datatype event =
    Send nat reply       \<comment> \<open>\<^verbatim>\<open>bot.sendMessage(chatId, ...)\<close>\<close>
  | Get jstring          \<comment> \<open>\<^verbatim>\<open>axios.get(url, ...)\<close>\<close>
  | Save                 \<comment> \<open>\<^verbatim>\<open>saveUserTags(userTags)\<close>\<close>
  | Respond string       \<comment> \<open>\<^verbatim>\<open>res.status(200).send(...)\<close> of the webhook\<close>

definition settle :: "http_failure + jstring \<Rightarrow> jstring option" where
  \<comment> \<open>the \<^verbatim>\<open>try\<close>/\<^verbatim>\<open>catch\<close> of both resolvers: the landed URL, or \<^verbatim>\<open>null\<close>\<close>
  "settle r = (case r of Inl e \<Rightarrow> None | Inr final \<Rightarrow> Some final)"

definition resolveUrl ::
    "(jstring \<Rightarrow> http_answer) \<Rightarrow> jstring \<Rightarrow> event list \<times> jstring option" where
  "resolveUrl net link = ([Get link], settle (axios_get net 10 link))"

definition resolveShortAmazonLink ::
    "(jstring \<Rightarrow> http_answer) \<Rightarrow> jstring \<Rightarrow> event list \<times> jstring option" where
  "resolveShortAmazonLink net shortUrl =
     (if \<not> regexp_test shortLinkRegex shortUrl then ([], None)
      else ([Get shortUrl], settle (axios_get net 10 shortUrl)))"

section \<open>The message handlers\<close>

text \<open>
  The process-wide maps \<^verbatim>\<open>userTags\<close> and \<^verbatim>\<open>usersAwaitingTag\<close>, and an inbound message
  with its \<^verbatim>\<open>chat.id\<close>, \<^verbatim>\<open>from.id\<close> and \<^verbatim>\<open>text\<close>. A handler returns the new state and
  what it did, in order. The handlers of the source read \<^verbatim>\<open>msg.text\<close> as a string; a
  message without text is outside the model.
\<close>

record state =
  userTags :: "nat \<rightharpoonup> jstring"
  usersAwaitingTag :: "nat set"

record message =
  chatId :: nat
  userId :: nat
  body :: jstring

subsection \<open>The webhook handler of \<^verbatim>\<open>src/api/index.js\<close>\<close>

definition reply_converted_api ::
    "(jstring \<Rightarrow> url option) \<Rightarrow> state \<Rightarrow> message \<Rightarrow> jstring \<Rightarrow> event list" where
  \<comment> \<open>step 4 of the handler, for a \<^verbatim>\<open>finalAmazonUrl\<close> that is set\<close>
  "reply_converted_api U st msg finalAmazonUrl =
     (let affiliateLink = convertToAffiliateLink_api U finalAmazonUrl (userTags st (userId msg))
      in [Send (chatId msg)
            (if affiliateLink \<noteq> finalAmazonUrl then AffiliateLink affiliateLink
             else ConvertFailed),
          Respond ''Update processed''])"

definition convert_message_api ::
    "(jstring \<Rightarrow> url option) \<Rightarrow> (jstring \<Rightarrow> http_answer) \<Rightarrow> state \<Rightarrow> message \<Rightarrow> event list" where
  \<comment> \<open>URL extraction and the steps 1 to 5\<close>
  "convert_message_api U net st msg =
     (case regexp_exec urlRegex (body msg) of
        None \<Rightarrow> [Send (chatId msg) NotAUrl, Respond ''No URL found'']
      | Some urlMatch \<Rightarrow>
          (let originalReceivedUrl = fst urlMatch
           in if regexp_test anyAmazonDomainRegex originalReceivedUrl
              then reply_converted_api U st msg originalReceivedUrl
              else
                Send (chatId msg) Resolving #
                (let r = resolveUrl net originalReceivedUrl
                 in fst r @
                    (if \<not> falsy (snd r)
                     then (if regexp_test anyAmazonDomainRegex (js_string (snd r))
                           then reply_converted_api U st msg (js_string (snd r))
                           else [Send (chatId msg) NotAmazonLink, Respond ''Update processed''])
                     else [Send (chatId msg) ResolveFailed,
                           Respond ''Link resolution failed'']))))"

definition handle_update_api ::
    "(jstring \<Rightarrow> url option) \<Rightarrow> (jstring \<Rightarrow> http_answer) \<Rightarrow> state \<Rightarrow> message option
       \<Rightarrow> state \<times> event list" where
  "handle_update_api U net st upd =
     (case upd of
        None \<Rightarrow> (st, [Respond ''No message received''])
      | Some msg \<Rightarrow>
          if body msg = js ''/settag'' then
            (st\<lparr>usersAwaitingTag := insert (userId msg) (usersAwaitingTag st)\<rparr>,
             [Send (chatId msg) AskForTag, Respond ''Set tag prompt sent''])
          else if falsy (userTags st (userId msg)) \<and> \<not> startsWith (body msg) (js ''/'') then
            (let potentialTag = trim (body msg)
             in if 0 < length potentialTag \<and> isValidAmazonTag potentialTag
                then (st\<lparr>userTags := (userTags st)(userId msg \<mapsto> potentialTag)\<rparr>,
                      [Save, Send (chatId msg) (TagSaved potentialTag), Respond ''Tag processed''])
                else (st, [Send (chatId msg) TagRejected, Respond ''Tag processed'']))
          else if startsWith (body msg) (js ''/'') then
            (if body msg = js ''/start'' then
               (st\<lparr>usersAwaitingTag := usersAwaitingTag st - {userId msg}\<rparr>,
                [Send (chatId msg)
                   (if \<not> falsy (userTags st (userId msg))
                    then WelcomeBack (js_string (userTags st (userId msg))) else Welcome),
                 Respond ''Command processed''])
             else (st, [Send (chatId msg) UnknownCommand, Respond ''Command processed'']))
          else (st, convert_message_api U net st msg))"

subsection \<open>The handlers of the polling bot \<^verbatim>\<open>src/unnamed/part_000\<close>\<close>

definition on_start_bot :: "state \<Rightarrow> message \<Rightarrow> state \<times> event list" where
  "on_start_bot st msg =
     (st\<lparr>usersAwaitingTag := usersAwaitingTag st - {userId msg}\<rparr>,
      [Send (chatId msg)
         (if \<not> falsy (userTags st (userId msg))
          then WelcomeBack (js_string (userTags st (userId msg))) else Welcome)])"

definition on_settag_bot :: "state \<Rightarrow> message \<Rightarrow> state \<times> event list" where
  "on_settag_bot st msg =
     (st\<lparr>usersAwaitingTag := insert (userId msg) (usersAwaitingTag st)\<rparr>,
      [Send (chatId msg) AskForTag])"

definition reply_converted_bot :: "state \<Rightarrow> message \<Rightarrow> jstring \<Rightarrow> bool \<Rightarrow> event list" where
  \<comment> \<open>the last \<^verbatim>\<open>if (isAmazonLink)\<close> of the message handler. Without a URL and for a URL
      that is no product link the bot sends the same text\<close>
  "reply_converted_bot st msg originalUrl isAmazonLink =
     (if isAmazonLink then
        (let affiliateLink = convertToAffiliateLink_bot originalUrl (userTags st (userId msg))
         in [Send (chatId msg)
               (if affiliateLink \<noteq> originalUrl then AffiliateLink affiliateLink
                else ConvertFailed)])
      else [Send (chatId msg) NotAmazonLink])"

definition convert_message_bot ::
    "(jstring \<Rightarrow> http_answer) \<Rightarrow> state \<Rightarrow> message \<Rightarrow> event list" where
  "convert_message_bot net st msg =
     (case regexp_exec urlRegex (body msg) of
        None \<Rightarrow> [Send (chatId msg) NotAmazonLink]
      | Some urlMatch \<Rightarrow>
          (let originalUrl = fst urlMatch
           in if regexp_test shortLinkRegex originalUrl
              then
                Send (chatId msg) Resolving #
                (let r = resolveShortAmazonLink net originalUrl
                 in fst r @
                    (if \<not> falsy (snd r)
                     then reply_converted_bot st msg (js_string (snd r))
                            (regexp_test amazonLongLinkRegex (js_string (snd r)))
                     else [Send (chatId msg) ResolveFailed]))
              else reply_converted_bot st msg originalUrl
                     (regexp_test amazonLongLinkRegex originalUrl)))"

definition on_message_bot ::
    "(jstring \<Rightarrow> http_answer) \<Rightarrow> state \<Rightarrow> message \<Rightarrow> state \<times> event list" where
  "on_message_bot net st msg =
     (if userId msg \<in> usersAwaitingTag st then
        (let potentialTag = trim (body msg)
         in if 0 < length potentialTag \<and> isValidAmazonTag potentialTag
            then (st\<lparr>userTags := (userTags st)(userId msg \<mapsto> potentialTag),
                      usersAwaitingTag := usersAwaitingTag st - {userId msg}\<rparr>,
                  [Save, Send (chatId msg) (TagSaved potentialTag)])
            else (st, [Send (chatId msg) TagRejected]))
      else if startsWith (body msg) (js ''/'') then (st, [Send (chatId msg) UnknownCommand])
      else (st, convert_message_bot net st msg))"

section \<open>Notions of the specification\<close>

text \<open>
  The shape of an affiliate tag in the words of the specification: alphanumeric segments
  joined by hyphens, one or more of them and then, as the final segment, a number of one
  to three digits.
\<close>

definition segment :: "jstring \<Rightarrow> bool" where
  "segment g = (g \<noteq> [] \<and> list_all alnum g)"

definition numeric_suffix :: "jstring \<Rightarrow> bool" where
  "numeric_suffix d = (1 \<le> length d \<and> length d \<le> 3 \<and> list_all digit d)"

definition tag_shape :: "jstring \<Rightarrow> bool" where
  "tag_shape s =
     (let gs = split_on (\<lambda>c. c = cu CHR ''-'') s
      in butlast gs \<noteq> [] \<and> list_all segment (butlast gs) \<and> numeric_suffix (last gs))"

text \<open>The words a pattern without anchors matches, as a language.\<close>

inductive_set star :: "jstring set \<Rightarrow> jstring set" for A :: "jstring set" where
  star_nil: "[] \<in> star A"
| star_app: "u \<in> A \<Longrightarrow> v \<in> star A \<Longrightarrow> u @ v \<in> star A"

fun lang :: "regex \<Rightarrow> jstring set" where
  "lang (Chs p) = {[a] | a. p a}"
| "lang Eps = {[]}"
| "lang (Seq r1 r2) = {u @ v | u v. u \<in> lang r1 \<and> v \<in> lang r2}"
| "lang (Alt r1 r2) = lang r1 \<union> lang r2"
| "lang (Star r) = star (lang r)"
| "lang (Grp k r) = lang r"
| "lang Bos = {}"
| "lang Eos = {}"

fun plain :: "regex \<Rightarrow> bool" where
  "plain (Chs p) = True"
| "plain Eps = True"
| "plain (Seq r1 r2) = (plain r1 \<and> plain r2)"
| "plain (Alt r1 r2) = (plain r1 \<and> plain r2)"
| "plain (Star r) = plain r"
| "plain (Grp k r) = plain r"
| "plain Bos = False"
| "plain Eos = False"

definition rests :: "nat \<Rightarrow> regex \<Rightarrow> jstring \<Rightarrow> caps \<Rightarrow> jstring set" where
  "rests n r x c = fst ` set (ms n r x c)"


text \<open>
  The query parameters of a parsed URL that are not affiliate parameters, in their order:
  what the query surgery of \<^verbatim>\<open>src/api/index.js\<close> keeps.
\<close>

definition kept_params :: "url \<Rightarrow> params" where
  "kept_params u =
     filter (\<lambda>p. fst p \<notin> set affiliate_params) (URLSearchParams (search_get u))"

definition fragment_part :: "url \<Rightarrow> jstring" where
  "fragment_part u = (case fragment u of None \<Rightarrow> [] | Some f \<Rightarrow> cu CHR ''#'' # f)"

definition form_char :: "nat \<Rightarrow> bool" where
  \<comment> \<open>the characters a serialised parameter list is made of\<close>
  "form_char c = (alnum c \<or> c \<in> set (js ''*-._+%=&''))"

text \<open>
  What the product-link pattern captures: a marketplace domain, \<^verbatim>\<open>amazon.\<close> and one of
  the listed endings in any letter case, and an ASIN-shaped token of ten alphanumerics.
\<close>

definition marketplace_domain :: "jstring \<Rightarrow> bool" where
  "marketplace_domain d =
     (map to_lower d \<in> set (map (\<lambda>t. js ''amazon.'' @ t) marketplace_endings))"

definition asin_shaped :: "jstring \<Rightarrow> bool" where
  "asin_shaped a = (length a = 10 \<and> list_all alnum a)"

fun grps :: "regex \<Rightarrow> nat set" where
  \<comment> \<open>the capture groups of a pattern\<close>
  "grps (Seq r1 r2) = grps r1 \<union> grps r2"
| "grps (Alt r1 r2) = grps r1 \<union> grps r2"
| "grps (Star r) = grps r"
| "grps (Grp k r) = insert k (grps r)"
| "grps r = {}"

section \<open>Test fixtures\<close>

text \<open>Networks for the examples: one that is down, one that answers 200 to every GET.\<close>

definition offline :: "jstring \<Rightarrow> http_answer" where
  "offline link = NetworkError"

definition all_ok :: "jstring \<Rightarrow> http_answer" where
  "all_ok link = Status 200"


definition no_tags :: state where
  "no_tags = \<lparr>userTags = Map.empty, usersAwaitingTag = {}\<rparr>"

definition store20 :: state where
  \<comment> \<open>user 7 has the tag \<^verbatim>\<open>store-20\<close>\<close>
  "store20 = \<lparr>userTags = [7 \<mapsto> js ''store-20''], usersAwaitingTag = {}\<rparr>"


definition from7 :: "jstring \<Rightarrow> message" where
  "from7 s = \<lparr>chatId = 1, userId = 7, body = s\<rparr>"

section \<open>The matcher and the language of a pattern\<close>


lemmas regex_defs =
  regexp_test_def regexp_exec_def Plus_def Opt_def Chr_def ChrI_def

lemma js_eq_Nil [simp]: "(js s = []) = (s = [])"
  by (simp add: js_def)

lemma star_decomp:
  "w \<in> star A \<Longrightarrow> w = [] \<or> (\<exists>u v. u \<noteq> [] \<and> u \<in> A \<and> v \<in> star A \<and> w = u @ v)"
proof (induction rule: star.induct)
  case star_nil
  then show ?case by simp
next
  case (star_app u v)
  then show ?case by (cases "u = []") auto
qed

lemma rests_Seq:
  "rests n (Seq r1 r2) x c = (\<Union>q \<in> set (ms n r1 x c). rests n r2 (fst q) (snd q))"
  by (auto simp: rests_def)

lemma rests_Star:
  "rests n (Star r) x c =
     insert x (\<Union>q \<in> {q \<in> set (ms n r x c). length (fst q) < length x}.
                 rests n (Star r) (fst q) (snd q))"
  unfolding rests_def
  apply (subst ms.simps(6))
  apply (auto simp del: ms.simps split: if_splits)
  done

text \<open>
  For a pattern without anchors the matcher leaves exactly the rests that follow a word
  of the pattern's language.
\<close>

lemma ms_plain:
  "plain r \<Longrightarrow> rests n r x c = {y. \<exists>w. w \<in> lang r \<and> x = w @ y}"
proof (induction n r x c rule: ms.induct)
  case (4 n r1 r2 x c)
  have a: "rests n r1 x c = {y. \<exists>w. w \<in> lang r1 \<and> x = w @ y}"
    using 4 by simp
  have b: "\<And>q. q \<in> set (ms n r1 x c) \<Longrightarrow>
             rests n r2 (fst q) (snd q) = {y. \<exists>w. w \<in> lang r2 \<and> fst q = w @ y}"
    using 4 by simp
  show ?case
  proof (rule set_eqI, rule iffI)
    fix y assume "y \<in> rests n (Seq r1 r2) x c"
    then obtain q where q: "q \<in> set (ms n r1 x c)" "y \<in> rests n r2 (fst q) (snd q)"
      by (auto simp: rests_Seq)
    from q(1) have "fst q \<in> rests n r1 x c" by (simp add: rests_def)
    with a obtain w1 where w1: "w1 \<in> lang r1" "x = w1 @ fst q" by auto
    from q(2) obtain w2 where w2: "w2 \<in> lang r2" "fst q = w2 @ y"
      unfolding b [OF q(1)] by blast
    from w1 w2 have "w1 @ w2 \<in> lang (Seq r1 r2)" "x = (w1 @ w2) @ y" by auto
    then show "y \<in> {y. \<exists>w. w \<in> lang (Seq r1 r2) \<and> x = w @ y}" by blast
  next
    fix y assume "y \<in> {y. \<exists>w. w \<in> lang (Seq r1 r2) \<and> x = w @ y}"
    then obtain w1 w2 where w: "w1 \<in> lang r1" "w2 \<in> lang r2" "x = w1 @ w2 @ y" by auto
    then have "w2 @ y \<in> rests n r1 x c" using a by auto
    then obtain q where q: "q \<in> set (ms n r1 x c)" "fst q = w2 @ y"
      by (auto simp: rests_def)
    have "y \<in> rests n r2 (fst q) (snd q)"
      unfolding b [OF q(1)] using w(2) q(2) by blast
    with q(1) show "y \<in> rests n (Seq r1 r2) x c" by (auto simp: rests_Seq)
  qed
next
  case (6 n r x c)
  have a: "rests n r x c = {y. \<exists>w. w \<in> lang r \<and> x = w @ y}"
    using 6 by simp
  have b: "\<And>q. q \<in> set (ms n r x c) \<Longrightarrow> length (fst q) < length x \<Longrightarrow>
             rests n (Star r) (fst q) (snd q) = {y. \<exists>w. w \<in> star (lang r) \<and> fst q = w @ y}"
    using 6 by simp
  show ?case
  proof (rule set_eqI, rule iffI)
    fix y assume "y \<in> rests n (Star r) x c"
    then consider "y = x"
      | q where "q \<in> set (ms n r x c)" "length (fst q) < length x"
          "y \<in> rests n (Star r) (fst q) (snd q)"
      unfolding rests_Star [of n r x c] by auto
    then show "y \<in> {y. \<exists>w. w \<in> lang (Star r) \<and> x = w @ y}"
    proof cases
      case 1
      then show ?thesis by (auto intro: star_nil)
    next
      case 2
      from 2(1) have "fst q \<in> rests n r x c" by (simp add: rests_def)
      with a obtain w1 where w1: "w1 \<in> lang r" "x = w1 @ fst q" by auto
      from 2(3) obtain w2 where w2: "w2 \<in> star (lang r)" "fst q = w2 @ y"
        unfolding b [OF 2(1) 2(2)] by blast
      from w1 w2 have "w1 @ w2 \<in> star (lang r)" "x = (w1 @ w2) @ y"
        by (auto intro: star_app)
      then show ?thesis by auto
    qed
  next
    fix y assume "y \<in> {y. \<exists>w. w \<in> lang (Star r) \<and> x = w @ y}"
    then obtain w where w: "w \<in> star (lang r)" "x = w @ y" by auto
    from star_decomp [OF w(1)] show "y \<in> rests n (Star r) x c"
    proof
      assume "w = []"
      with w show ?thesis unfolding rests_Star [of n r x c] by simp
    next
      assume "\<exists>u v. u \<noteq> [] \<and> u \<in> lang r \<and> v \<in> star (lang r) \<and> w = u @ v"
      then obtain u v where uv: "u \<noteq> []" "u \<in> lang r" "v \<in> star (lang r)" "w = u @ v"
        by auto
      with w have "v @ y \<in> rests n r x c" using a by auto
      then obtain q where q: "q \<in> set (ms n r x c)" "fst q = v @ y"
        by (auto simp: rests_def)
      have len: "length (fst q) < length x" using q uv w by simp
      have "y \<in> rests n (Star r) (fst q) (snd q)"
        unfolding b [OF q(1) len] using uv(3) q(2) by blast
      with q(1) len show ?thesis unfolding rests_Star [of n r x c] by auto
    qed
  qed
next
  case (1 n p c)
  then show ?case by (simp add: rests_def)
next
  case (2 n p a x c)
  then show ?case by (auto simp: rests_def)
next
  case (3 n x c)
  then show ?case by (simp add: rests_def)
next
  case (5 n r1 r2 x c)
  then show ?case by (auto simp: rests_def image_Un)
next
  case (7 n k r x c)
  have "rests n (Grp k r) x c = rests n r x c" by (force simp: rests_def)
  with 7 show ?case by simp
next
  case (8 n x c)
  then show ?case by simp
next
  case (9 n x c)
  then show ?case by simp
qed

lemma search_Bos_short: "length x < n \<Longrightarrow> search n (Seq Bos r) x = None"
  by (induction x) auto

lemma test_Bos: "regexp_test (Seq Bos r) s = (ms (length s) r s (\<lambda>k. None) \<noteq> [])"
  by (cases s) (auto simp: regexp_test_def regexp_exec_def search_Bos_short split: list.splits)

lemma ms_Seq_Eos: "(ms n (Seq r Eos) x c \<noteq> []) = ([] \<in> rests n r x c)"
proof -
  have "(ms n (Seq r Eos) x c \<noteq> []) = (\<exists>q \<in> set (ms n r x c). fst q = [])"
    by (induction "ms n r x c") auto
  also have "\<dots> = ([] \<in> rests n r x c)"
    unfolding rests_def image_iff by (rule bex_cong) auto
  finally show ?thesis .
qed

text \<open>A pattern anchored at both ends tests membership in the language of its body.\<close>

lemma test_anchored: "plain r \<Longrightarrow> regexp_test (Seq Bos (Seq r Eos)) s = (s \<in> lang r)"
  by (simp only: test_Bos ms_Seq_Eos ms_plain) simp

lemma in_lang_Seq:
  "(w \<in> lang (Seq r1 r2)) = (\<exists>u v. w = u @ v \<and> u \<in> lang r1 \<and> v \<in> lang r2)"
  by auto

lemma in_lang_Seq4:
  "(w \<in> lang (Seq a (Seq b (Seq c d)))) =
     (\<exists>u1 u2 u3 u4. w = u1 @ u2 @ u3 @ u4 \<and>
        u1 \<in> lang a \<and> u2 \<in> lang b \<and> u3 \<in> lang c \<and> u4 \<in> lang d)"
  by (simp only: in_lang_Seq) blast

lemma in_lang_Seq_Chs:
  "(w \<in> lang (Seq (Chs p) r)) = (\<exists>a v. w = a # v \<and> p a \<and> v \<in> lang r)"
proof
  assume "w \<in> lang (Seq (Chs p) r)"
  then obtain u v where "w = u @ v" "u \<in> lang (Chs p)" "v \<in> lang r" by auto
  then show "\<exists>a v. w = a # v \<and> p a \<and> v \<in> lang r" by auto
next
  assume "\<exists>a v. w = a # v \<and> p a \<and> v \<in> lang r"
  then obtain a v where w: "w = a # v" "p a" "v \<in> lang r" by auto
  then have "[a] \<in> lang (Chs p)" by simp
  with w(3) have "[a] @ v \<in> lang (Seq (Chs p) r)" unfolding lang.simps(3) by blast
  with w(1) show "w \<in> lang (Seq (Chs p) r)" by simp
qed

lemma in_lang_Opt: "(w \<in> lang (Opt r)) = (w = [] \<or> w \<in> lang r)"
  by (auto simp: Opt_def)

lemma in_lang_Chs: "(w \<in> lang (Chs p)) = (\<exists>a. w = [a] \<and> p a)"
  by auto

lemma star_Chs: "star {[a] |a. p a} = {g. list_all p g}"
proof (rule set_eqI, rule iffI)
  fix g assume "g \<in> star {[a] |a. p a}"
  then show "g \<in> {g. list_all p g}"
    by (induction rule: star.induct) auto
next
  fix g assume "g \<in> {g. list_all p g}"
  then have "list_all p g" by simp
  then show "g \<in> star {[a] |a. p a}"
  proof (induction g)
    case Nil
    show ?case by (rule star_nil)
  next
    case (Cons a g)
    then have "[a] \<in> {[a] |a. p a}" "g \<in> star {[a] |a. p a}" by auto
    then have "[a] @ g \<in> star {[a] |a. p a}" by (rule star_app)
    then show ?case by simp
  qed
qed

lemma lang_Plus_Chs: "lang (Plus (Chs p)) = {g. g \<noteq> [] \<and> list_all p g}"
proof -
  have "lang (Plus (Chs p)) = {[a] @ v |a v. p a \<and> list_all p v}"
    unfolding Plus_def lang.simps star_Chs by blast
  also have "\<dots> = {g. g \<noteq> [] \<and> list_all p g}"
    by (auto simp: neq_Nil_conv)
  finally show ?thesis .
qed

section \<open>The tag validator accepts exactly the tags of the specified shape\<close>

lemma star_hyphen_segments:
  "star {(cu CHR ''-'') # g |g. segment g} =
     {concat (map (\<lambda>g. (cu CHR ''-'') # g) gs) |gs. list_all segment gs}"
proof (rule set_eqI, rule iffI)
  fix w assume "w \<in> star {(cu CHR ''-'') # g |g. segment g}"
  then show "w \<in> {concat (map (\<lambda>g. (cu CHR ''-'') # g) gs) |gs. list_all segment gs}"
  proof (induction rule: star.induct)
    case star_nil
    have "[] = concat (map (\<lambda>g. (cu CHR ''-'') # g) [])" "list_all segment []" by simp_all
    then show ?case by blast
  next
    case (star_app u v)
    then obtain g gs where "u = (cu CHR ''-'') # g" "segment g"
        "v = concat (map (\<lambda>g. (cu CHR ''-'') # g) gs)" "list_all segment gs" by auto
    then have "u @ v = concat (map (\<lambda>g. (cu CHR ''-'') # g) (g # gs))" "list_all segment (g # gs)"
      by simp_all
    then show ?case by blast
  qed
next
  fix w assume "w \<in> {concat (map (\<lambda>g. (cu CHR ''-'') # g) gs) |gs. list_all segment gs}"
  then obtain gs where w: "w = concat (map (\<lambda>g. (cu CHR ''-'') # g) gs)" and "list_all segment gs"
    by auto
  from this(2) have "concat (map (\<lambda>g. (cu CHR ''-'') # g) gs) \<in> star {(cu CHR ''-'') # g |g. segment g}"
  proof (induction gs)
    case Nil
    then show ?case by (simp add: star_nil)
  next
    case (Cons g gs)
    then have "(cu CHR ''-'') # g \<in> {(cu CHR ''-'') # g |g. segment g}"
        "concat (map (\<lambda>g. (cu CHR ''-'') # g) gs) \<in> star {(cu CHR ''-'') # g |g. segment g}" by auto
    then have "((cu CHR ''-'') # g) @ concat (map (\<lambda>g. (cu CHR ''-'') # g) gs)
                 \<in> star {(cu CHR ''-'') # g |g. segment g}"
      by (rule star_app)
    then show ?case by simp
  qed
  with w show "w \<in> star {(cu CHR ''-'') # g |g. segment g}" by simp
qed

lemma lang_hyphen_segment:
  "lang (Seq (Chr (cu CHR ''-'')) (Plus (Chs alnum))) = {(cu CHR ''-'') # g |g. segment g}"
  by (auto simp: lang_Plus_Chs Chr_def segment_def)

lemma lang_digits13:
  "(d \<in> lang (Seq (Chs digit) (Opt (Seq (Chs digit) (Opt (Chs digit)))))) = numeric_suffix d"
proof (cases d)
  case Nil
  then show ?thesis
    by (simp add: in_lang_Seq_Chs numeric_suffix_def del: lang.simps)
next
  case d1: (Cons a t)
  show ?thesis
  proof (cases t)
    case Nil
    with d1 show ?thesis
      by (simp add: in_lang_Seq_Chs in_lang_Opt numeric_suffix_def del: lang.simps)
  next
    case d2: (Cons b t2)
    show ?thesis
    proof (cases t2)
      case Nil
      with d1 d2 show ?thesis
        by (simp add: in_lang_Seq_Chs in_lang_Opt in_lang_Chs numeric_suffix_def
                 del: lang.simps)
    next
      case d3: (Cons e t3)
      show ?thesis
      proof (cases t3)
        case Nil
        with d1 d2 d3 show ?thesis
          by (simp add: in_lang_Seq_Chs in_lang_Opt in_lang_Chs numeric_suffix_def
                   del: lang.simps)
      next
        case (Cons f t4)
        with d1 d2 d3 show ?thesis
          by (simp add: in_lang_Seq_Chs in_lang_Opt in_lang_Chs numeric_suffix_def
                   del: lang.simps)
      qed
    qed
  qed
qed

lemma in_lang_tagBody:
  "(s \<in> lang tagBody) =
     (\<exists>g gs d. segment g \<and> list_all segment gs \<and> numeric_suffix d \<and>
        s = g @ concat (map ((#) (cu CHR ''-'')) gs) @ (cu CHR ''-'') # d)"
proof -
  have plus: "\<And>u. (u \<in> lang (Plus (Chs alnum))) = segment u"
    by (simp add: lang_Plus_Chs segment_def)
  have mid: "\<And>v. (v \<in> lang (Star (Seq (Chr (cu CHR ''-'')) (Plus (Chs alnum))))) =
               (\<exists>gs. list_all segment gs \<and> v = concat (map ((#) (cu CHR ''-'')) gs))"
    unfolding lang.simps(5) lang_hyphen_segment star_hyphen_segments by blast
  have hy: "\<And>v. (v \<in> lang (Chr (cu CHR ''-''))) = (v = [(cu CHR ''-'')])"
    by (auto simp: Chr_def)
  have "(s \<in> lang tagBody) =
     (\<exists>u1 u2 u3 u4. s = u1 @ u2 @ u3 @ u4 \<and> segment u1 \<and>
        (\<exists>gs. list_all segment gs \<and> u2 = concat (map ((#) (cu CHR ''-'')) gs)) \<and>
        u3 = [(cu CHR ''-'')] \<and> numeric_suffix u4)"
    unfolding tagBody_def in_lang_Seq4 plus mid hy lang_digits13 ..
  also have "\<dots> = (\<exists>g gs d. segment g \<and> list_all segment gs \<and> numeric_suffix d \<and>
        s = g @ concat (map ((#) (cu CHR ''-'')) gs) @ (cu CHR ''-'') # d)"
    by auto
  finally show ?thesis .
qed

lemma split_on_ne: "split_on sep s \<noteq> []"
  by (induction s) (auto split: list.splits)

lemma split_on_free: "\<not> list_ex sep g \<Longrightarrow> split_on sep g = [g]"
  by (induction g) auto

lemma split_on_app:
  "\<not> list_ex sep g \<Longrightarrow> sep a \<Longrightarrow> split_on sep (g @ a # t) = g # split_on sep t"
  by (induction g) auto

lemma split_hyphen_segments:
  "(cu CHR ''-'') \<notin> set g \<Longrightarrow> \<forall>h \<in> set gs. (cu CHR ''-'') \<notin> set h \<Longrightarrow> (cu CHR ''-'') \<notin> set d \<Longrightarrow>
   split_on (\<lambda>c. c = (cu CHR ''-'')) (g @ concat (map ((#) (cu CHR ''-'')) gs) @ (cu CHR ''-'') # d)
     = g # gs @ [d]"
proof (induction gs arbitrary: g)
  case Nil
  then show ?case by (simp add: split_on_app split_on_free list_ex_iff)
next
  case (Cons h gs)
  have "split_on (\<lambda>c. c = (cu CHR ''-'')) (g @ concat (map ((#) (cu CHR ''-'')) (h # gs)) @ (cu CHR ''-'') # d)
        = split_on (\<lambda>c. c = (cu CHR ''-''))
            (g @ (cu CHR ''-'') # (h @ concat (map ((#) (cu CHR ''-'')) gs) @ (cu CHR ''-'') # d))"
    by simp
  also have "\<dots> = g # split_on (\<lambda>c. c = (cu CHR ''-''))
                        (h @ concat (map ((#) (cu CHR ''-'')) gs) @ (cu CHR ''-'') # d)"
    using Cons.prems(1) by (intro split_on_app) (simp_all add: list_ex_iff)
  also have "\<dots> = g # h # gs @ [d]"
    using Cons.IH [of h] Cons.prems by simp
  finally show ?case by simp
qed

lemma join_split_on: "join_with [a] (split_on (\<lambda>c. c = a) s) = s"
proof (induction s)
  case Nil
  then show ?case by simp
next
  case (Cons b s)
  obtain g gs where sp: "split_on (\<lambda>c. c = a) s = g # gs"
    using split_on_ne [of "\<lambda>c. c = a" s] by (cases "split_on (\<lambda>c. c = a) s") auto
  with Cons show ?case by (cases gs) auto
qed

lemma join_with_form: "join_with [a] (g # gs) = g @ concat (map ((#) a) gs)"
  by (induction gs arbitrary: g) auto

lemma alnum_not_hyphen: "alnum c \<Longrightarrow> c \<noteq> (cu CHR ''-'')"
  by (auto simp: alnum_def lower_az_def upper_AZ_def digit_def in_range_def cu_def)

lemma digit_alnum: "digit c \<Longrightarrow> alnum c"
  by (simp add: alnum_def)

lemma segment_free: "segment g \<Longrightarrow> (cu CHR ''-'') \<notin> set g"
  using alnum_not_hyphen by (auto simp: segment_def list_all_iff)

lemma numeric_free: "numeric_suffix d \<Longrightarrow> (cu CHR ''-'') \<notin> set d"
  using alnum_not_hyphen digit_alnum by (auto simp: numeric_suffix_def list_all_iff)

lemma tag_shape_iff:
  "tag_shape s =
     (\<exists>g gs d. segment g \<and> list_all segment gs \<and> numeric_suffix d \<and>
        s = g @ concat (map ((#) (cu CHR ''-'')) gs) @ (cu CHR ''-'') # d)"
proof
  assume ts: "tag_shape s"
  define ps where "ps = split_on (\<lambda>c. c = (cu CHR ''-'')) s"
  from ts have a: "butlast ps \<noteq> []" "list_all segment (butlast ps)" "numeric_suffix (last ps)"
    by (simp_all add: tag_shape_def ps_def Let_def)
  then obtain g gs where bl: "butlast ps = g # gs" by (cases "butlast ps") auto
  have "ps \<noteq> []" using a(1) by auto
  then have "ps = butlast ps @ [last ps]" by simp
  with bl have ps: "ps = g # gs @ [last ps]" by simp
  have "s = join_with [cu CHR ''-''] ps" by (simp add: ps_def join_split_on)
  also have "\<dots> = g @ concat (map ((#) (cu CHR ''-'')) (gs @ [last ps]))"
    by (subst ps) (rule join_with_form)
  finally have "s = g @ concat (map ((#) (cu CHR ''-'')) gs) @ (cu CHR ''-'') # last ps" by simp
  moreover from a(2) bl have "segment g" "list_all segment gs" by simp_all
  ultimately show "\<exists>g gs d. segment g \<and> list_all segment gs \<and> numeric_suffix d \<and>
        s = g @ concat (map ((#) (cu CHR ''-'')) gs) @ (cu CHR ''-'') # d"
    using a(3) by blast
next
  assume "\<exists>g gs d. segment g \<and> list_all segment gs \<and> numeric_suffix d \<and>
        s = g @ concat (map ((#) (cu CHR ''-'')) gs) @ (cu CHR ''-'') # d"
  then obtain g gs d where h: "segment g" "list_all segment gs" "numeric_suffix d"
      "s = g @ concat (map ((#) (cu CHR ''-'')) gs) @ (cu CHR ''-'') # d" by blast
  have "split_on (\<lambda>c. c = (cu CHR ''-'')) s = g # gs @ [d]"
    unfolding h(4)
    by (rule split_hyphen_segments)
       (use h segment_free numeric_free in \<open>auto simp: list_all_iff\<close>)
  then have "split_on (\<lambda>c. c = (cu CHR ''-'')) s = (g # gs) @ [d]" by simp
  then show "tag_shape s"
    using h by (simp add: tag_shape_def Let_def del: append_Cons)
qed

lemma plain_tagBody: "plain tagBody"
  by (simp add: tagBody_def Plus_def Opt_def Chr_def)

lemma isValidAmazonTag_shape: "isValidAmazonTag s = tag_shape s"
  unfolding isValidAmazonTag_def tagRegex_def
  by (simp only: test_anchored [OF plain_tagBody] in_lang_tagBody tag_shape_iff)

lemma tag_accepts: "isValidAmazonTag (js ''store-20'')" "isValidAmazonTag (js ''my-cool-store-1'')"
  by code_simp+

lemma tag_rejects:
  "\<not> isValidAmazonTag (js ''store'')" "\<not> isValidAmazonTag (js ''store-abcd'')"
  "\<not> isValidAmazonTag (js '' store-20 '')" "\<not> isValidAmazonTag (js ''-20'')"
  by code_simp+

text \<open>
  C7. \<^verbatim>\<open>isValidAmazonTag\<close> (the same function in both programs) returns true exactly for
  the strings that are hyphen-joined alphanumeric segments, one or more and then the
  final segment of one to three digits. It accepts \<^verbatim>\<open>store-20\<close> and
  \<^verbatim>\<open>my-cool-store-1\<close> and rejects \<^verbatim>\<open>store\<close>, \<^verbatim>\<open>store-abcd\<close>, \<^verbatim>\<open> store-20 \<close> with its
  spaces, and \<^verbatim>\<open>-20\<close>.
\<close>

theorem isValidTag_exactly_tag_shape:
  "(\<forall>s. isValidAmazonTag s = tag_shape s) \<and>
   isValidAmazonTag (js ''store-20'') \<and> isValidAmazonTag (js ''my-cool-store-1'') \<and>
   \<not> isValidAmazonTag (js ''store'') \<and> \<not> isValidAmazonTag (js ''store-abcd'') \<and>
   \<not> isValidAmazonTag (js '' store-20 '') \<and> \<not> isValidAmazonTag (js ''-20'')"
  using isValidAmazonTag_shape tag_accepts tag_rejects by blast

text \<open>
  The shape at work, derived from the validator: \<^verbatim>\<open>store-20\<close> has it, and a lone number
  such as \<^verbatim>\<open>20\<close>, which has no segment before its final one, has it not.
\<close>

theorem isValidTag_exactly_tag_shape_witness:
  "tag_shape (js ''store-20'') \<and> \<not> tag_shape (js ''20'')"
proof -
  have a: "isValidAmazonTag (js ''store-20'')" and b: "\<not> isValidAmazonTag (js ''20'')"
    by code_simp+
  from isValidTag_exactly_tag_shape have "\<forall>s. isValidAmazonTag s = tag_shape s" by blast
  with a b show ?thesis by blast
qed

section \<open>The rewriter without a tag\<close>

text \<open>
  C8. The no-op law: without a tag (\<^verbatim>\<open>undefined\<close> for a user who has none, and just so
  the empty string) both rewriters return their input unchanged, whatever the input and
  whatever the platform's URL parser would answer.
\<close>

theorem rewrite_absent_tag_is_identity:
  "convertToAffiliateLink_api U link None = link \<and>
   convertToAffiliateLink_bot link None = link \<and>
   convertToAffiliateLink_api U link (Some []) = link \<and>
   convertToAffiliateLink_bot link (Some []) = link"
  by (simp add: convertToAffiliateLink_api_def convertToAffiliateLink_bot_def falsy_def)

section \<open>Tag capture\<close>









lemma trim_unicode_example:
  "trim ([0xFEFF] @ js '' store-20'' @ [0xA0, 0x2003]) = js ''store-20''"
  by code_simp




section \<open>A product link from a user without a tag\<close>

lemmas handler_defs =
  handle_update_api_def convert_message_api_def reply_converted_api_def
  on_message_bot_def convert_message_bot_def reply_converted_bot_def

text \<open>
  C1. In the bot, a user without a tag (and not awaiting one) who sends a direct product
  link is not told to register a tag: the rewriter returns the link unchanged for want of
  a tag, and the handler answers with its could-not-convert text, which blames the link.
  No link is sent. This holds for every such message.
\<close>

theorem bot_tagless_product_link_blames_link:
  assumes "userId msg \<notin> usersAwaitingTag st"
    and "falsy (userTags st (userId msg))"
    and "\<not> startsWith (body msg) (js ''/'')"
    and "regexp_exec urlRegex (body msg) = Some m"
    and "\<not> regexp_test shortLinkRegex (fst m)"
    and "regexp_test amazonLongLinkRegex (fst m)"
  shows "on_message_bot net st msg = (st, [Send (chatId msg) ConvertFailed])"
  using assms
  by (simp add: on_message_bot_def convert_message_bot_def reply_converted_bot_def
        convertToAffiliateLink_bot_def Let_def)

text \<open>The failing input: \<^verbatim>\<open>https://www.amazon.com/dp/B00005N5PF\<close> from user 7, who has no tag.\<close>

theorem bot_tagless_product_link_blames_link_witness:
  "snd (on_message_bot offline no_tags (from7 (js ''https://www.amazon.com/dp/B00005N5PF'')))
     = [Send 1 ConvertFailed]"
proof -
  let ?msg = "from7 (js ''https://www.amazon.com/dp/B00005N5PF'')"
  have a: "userId ?msg \<notin> usersAwaitingTag no_tags"
    by (simp add: no_tags_def)
  have b: "falsy (userTags no_tags (userId ?msg))"
    by (simp add: no_tags_def falsy_def)
  have c: "\<not> startsWith (body ?msg) (js ''/'')"
    by code_simp
  have "map_option fst (regexp_exec urlRegex (body ?msg))
          = Some (js ''https://www.amazon.com/dp/B00005N5PF'')"
    by code_simp
  then obtain m where d: "regexp_exec urlRegex (body ?msg) = Some m"
    and m: "fst m = (js ''https://www.amazon.com/dp/B00005N5PF'')" by auto
  have e: "\<not> regexp_test shortLinkRegex (fst m)"
    unfolding m by code_simp
  have f: "regexp_test amazonLongLinkRegex (fst m)"
    unfolding m by code_simp
  from bot_tagless_product_link_blames_link [OF a b c d e f, of offline]
  show ?thesis by (simp add: from7_def)
qed

text \<open>
  The webhook handler on the same input: it takes the message of a user without a tag as
  a tag candidate and asks for a valid tag.
\<close>

lemma api_tagless_product_link_asks_for_tag:
  "snd (handle_update_api newURL offline no_tags
          (Some (from7 (js ''https://www.amazon.com/dp/B00005N5PF''))))
     = [Send 1 TagRejected, Respond ''Tag processed'']"
  by code_simp

section \<open>End to end: a link inside free text\<close>

text \<open>
  The message of the specification's example has no \<^verbatim>\<open>http://\<close> or \<^verbatim>\<open>https://\<close>, which
  the extraction pattern of both handlers requires: nothing is extracted, and both
  handlers reject the message (the bot with the text it also uses for a link that is not
  Amazon's).
\<close>

theorem schemeless_link_is_not_extracted:
  "map_option fst (regexp_exec urlRegex (js ''check this out amazon.com/dp/B00005N5PF thanks''))
     = None \<and>
   snd (handle_update_api newURL offline store20
          (Some (from7 (js ''check this out amazon.com/dp/B00005N5PF thanks''))))
     = [Send 1 NotAUrl, Respond ''No URL found''] \<and>
   snd (on_message_bot offline store20
          (from7 (js ''check this out amazon.com/dp/B00005N5PF thanks'')))
     = [Send 1 NotAmazonLink]"
  by code_simp

lemma extract_example:
  "map_option fst
     (regexp_exec urlRegex (js ''check this out https://amazon.com/dp/B00005N5PF thanks''))
     = Some (js ''https://amazon.com/dp/B00005N5PF'')"
  by code_simp

lemma classify_example:
  "regexp_test anyAmazonDomainRegex (js ''https://amazon.com/dp/B00005N5PF'')"
  "\<not> regexp_test shortLinkRegex (js ''https://amazon.com/dp/B00005N5PF'')"
  "regexp_test amazonLongLinkRegex (js ''https://amazon.com/dp/B00005N5PF'')"
  by code_simp+

lemma conforms_newURL: "conforms newURL"
  by (simp add: conforms_def newURL_def split: outcome.split)

lemma conforms_Returns: "conforms U \<Longrightarrow> parseURL s = Returns u \<Longrightarrow> U s = Some u"
  unfolding conforms_def by (drule spec [of _ s]) simp

lemma conforms_Throws: "conforms U \<Longrightarrow> parseURL s = Throws \<Longrightarrow> U s = None"
  unfolding conforms_def by (drule spec [of _ s]) simp

lemma conforms_same: "conforms U \<Longrightarrow> parseURL s \<noteq> Beyond \<Longrightarrow> U s = newURL s"
  by (cases "parseURL s") (simp_all add: newURL_def conforms_Returns conforms_Throws)

lemma convert_api_same:
  "U link = V link \<Longrightarrow> convertToAffiliateLink_api U link tag = convertToAffiliateLink_api V link tag"
  by (simp add: convertToAffiliateLink_api_def)

lemma api_example:
  assumes "conforms U"
  shows "snd (handle_update_api U net store20
            (Some (from7 (js ''check this out https://amazon.com/dp/B00005N5PF thanks''))))
         = [Send 1 (AffiliateLink (js ''https://amazon.com/dp/B00005N5PF?tag=store-20'')),
            Respond ''Update processed'']"
proof -
  let ?text = "js ''check this out https://amazon.com/dp/B00005N5PF thanks''"
  let ?link = "js ''https://amazon.com/dp/B00005N5PF''"
  have "parseURL ?link \<noteq> Beyond" by code_simp
  with assms have "U ?link = newURL ?link" by (rule conforms_same)
  then have "convertToAffiliateLink_api U ?link (Some (js ''store-20''))
               = convertToAffiliateLink_api newURL ?link (Some (js ''store-20''))"
    by (rule convert_api_same)
  also have "\<dots> = js ''https://amazon.com/dp/B00005N5PF?tag=store-20''" by code_simp
  finally have conv: "convertToAffiliateLink_api U ?link (Some (js ''store-20''))
                        = js ''https://amazon.com/dp/B00005N5PF?tag=store-20''" .
  have ne: "js ''https://amazon.com/dp/B00005N5PF?tag=store-20'' \<noteq> ?link" by code_simp
  have cmd: "?text \<noteq> js ''/settag''" "\<not> startsWith ?text (js ''/'')" by code_simp+
  from extract_example obtain m where m: "regexp_exec urlRegex ?text = Some m" "fst m = ?link"
    by auto
  show ?thesis
    using m cmd classify_example(1) conv ne
    by (simp add: handle_update_api_def convert_message_api_def reply_converted_api_def
          from7_def store20_def falsy_def Let_def)
qed

lemma bot_example:
  "snd (on_message_bot net store20
          (from7 (js ''check this out https://amazon.com/dp/B00005N5PF thanks'')))
     = [Send 1 (AffiliateLink (js ''https://amazon.com/dp/B00005N5PF?tag=store-20''))]"
  by code_simp

lemma emitted_example:
  assumes "conforms U"
  shows "map_option path (U (js ''https://amazon.com/dp/B00005N5PF?tag=store-20''))
           = Some (Segments [js ''dp'', js ''B00005N5PF''])"
    and "map_option query (U (js ''https://amazon.com/dp/B00005N5PF?tag=store-20''))
           = Some (Some (js ''tag=store-20''))"
proof -
  let ?out = "js ''https://amazon.com/dp/B00005N5PF?tag=store-20''"
  have "parseURL ?out \<noteq> Beyond" by code_simp
  with assms have u: "U ?out = newURL ?out" by (rule conforms_same)
  have "map_option path (newURL ?out) = Some (Segments [js ''dp'', js ''B00005N5PF''])"
    by code_simp
  then show "map_option path (U ?out) = Some (Segments [js ''dp'', js ''B00005N5PF''])"
    by (simp only: u)
  have "map_option query (newURL ?out) = Some (Some (js ''tag=store-20''))"
    by code_simp
  then show "map_option query (U ?out) = Some (Some (js ''tag=store-20''))"
    by (simp only: u)
qed

text \<open>
  C6, amended. For a user whose stored tag is \<^verbatim>\<open>store-20\<close>, sending
  \<^verbatim>\<open>check this out https://amazon.com/dp/B00005N5PF thanks\<close>, both handlers extract
  \<^verbatim>\<open>https://amazon.com/dp/B00005N5PF\<close>, classify it as a direct Amazon link (no resolver
  is asked, whatever the network) and emit
  \<^verbatim>\<open>https://amazon.com/dp/B00005N5PF?tag=store-20\<close>, whose query is \<^verbatim>\<open>tag=store-20\<close>
  and whose path is still \<^verbatim>\<open>/dp/B00005N5PF\<close>. This holds with every URL constructor
  that conforms to the standard.
\<close>

theorem link_in_free_text_is_converted:
  assumes "conforms U"
  shows
  "map_option fst
     (regexp_exec urlRegex (js ''check this out https://amazon.com/dp/B00005N5PF thanks''))
     = Some (js ''https://amazon.com/dp/B00005N5PF'') \<and>
   regexp_test anyAmazonDomainRegex (js ''https://amazon.com/dp/B00005N5PF'') \<and>
   \<not> regexp_test shortLinkRegex (js ''https://amazon.com/dp/B00005N5PF'') \<and>
   regexp_test amazonLongLinkRegex (js ''https://amazon.com/dp/B00005N5PF'') \<and>
   snd (handle_update_api U net store20
          (Some (from7 (js ''check this out https://amazon.com/dp/B00005N5PF thanks''))))
     = [Send 1 (AffiliateLink (js ''https://amazon.com/dp/B00005N5PF?tag=store-20'')),
        Respond ''Update processed''] \<and>
   snd (on_message_bot net store20
          (from7 (js ''check this out https://amazon.com/dp/B00005N5PF thanks'')))
     = [Send 1 (AffiliateLink (js ''https://amazon.com/dp/B00005N5PF?tag=store-20''))] \<and>
   map_option path (U (js ''https://amazon.com/dp/B00005N5PF?tag=store-20''))
     = Some (Segments [js ''dp'', js ''B00005N5PF'']) \<and>
   map_option query (U (js ''https://amazon.com/dp/B00005N5PF?tag=store-20''))
     = Some (Some (js ''tag=store-20''))"
  using extract_example classify_example api_example [OF assms] bot_example
    emitted_example [OF assms]
  by blast

text \<open>
  The same with the constructor \<open>newURL\<close>, with the network down and with a network
  that answers every GET.
\<close>

theorem link_in_free_text_is_converted_witness:
  "conforms newURL \<and>
   snd (handle_update_api newURL offline store20
          (Some (from7 (js ''check this out https://amazon.com/dp/B00005N5PF thanks''))))
     = [Send 1 (AffiliateLink (js ''https://amazon.com/dp/B00005N5PF?tag=store-20'')),
        Respond ''Update processed''] \<and>
   snd (on_message_bot all_ok store20
          (from7 (js ''check this out https://amazon.com/dp/B00005N5PF thanks'')))
     = [Send 1 (AffiliateLink (js ''https://amazon.com/dp/B00005N5PF?tag=store-20''))] \<and>
   map_option path (newURL (js ''https://amazon.com/dp/B00005N5PF?tag=store-20''))
     = Some (Segments [js ''dp'', js ''B00005N5PF'']) \<and>
   map_option query (newURL (js ''https://amazon.com/dp/B00005N5PF?tag=store-20''))
     = Some (Some (js ''tag=store-20''))"
proof -
  have c: "conforms newURL"
    by (simp add: conforms_def newURL_def split: outcome.split)
  from c link_in_free_text_is_converted [OF c, where net = offline]
    link_in_free_text_is_converted [OF c, where net = all_ok]
  show ?thesis by blast
qed

section \<open>Links that are neither Amazon's nor a shortener's\<close>

text \<open>
  The claim that a link whose host is on neither allow-list never reaches the resolver
  fails in both programs. The webhook handler has no shortener list: it resolves every
  link that does not name an Amazon marketplace. The bot looks for its shortener names
  anywhere in the link, so a path can bring the link to the resolver.
\<close>

theorem unknown_host_reaches_resolver:
  "map_option host (newURL (js ''https://example.com/x'')) = Some (Some (js ''example.com'')) \<and>
   snd (handle_update_api newURL all_ok store20 (Some (from7 (js ''https://example.com/x''))))
     = [Send 1 Resolving, Get (js ''https://example.com/x''), Send 1 NotAmazonLink,
        Respond ''Update processed''] \<and>
   map_option host (newURL (js ''https://example.com/amzn.to/x'')) = Some (Some (js ''example.com'')) \<and>
   snd (on_message_bot all_ok store20 (from7 (js ''https://example.com/amzn.to/x'')))
     = [Send 1 Resolving, Get (js ''https://example.com/amzn.to/x''), Send 1 NotAmazonLink]"
  by code_simp

lemma bot_unknown_rejected:
  assumes "userId msg \<notin> usersAwaitingTag st"
    and "\<not> startsWith (body msg) (js ''/'')"
    and "regexp_exec urlRegex (body msg) = Some m"
    and "\<not> regexp_test shortLinkRegex (fst m)"
    and "\<not> regexp_test amazonLongLinkRegex (fst m)"
  shows "on_message_bot net st msg = (st, [Send (chatId msg) NotAmazonLink])"
  using assms
  by (simp add: on_message_bot_def convert_message_bot_def reply_converted_bot_def Let_def)

lemma api_not_amazon_resolved:
  assumes "\<not> falsy (userTags st (userId msg))"
    and "\<not> startsWith (body msg) (js ''/'')"
    and "regexp_exec urlRegex (body msg) = Some m"
    and "\<not> regexp_test anyAmazonDomainRegex (fst m)"
  shows "\<exists>rest. snd (handle_update_api U net st (Some msg))
           = Send (chatId msg) Resolving # Get (fst m) # rest"
proof -
  from assms(2) have "body msg \<noteq> (js ''/settag'')" by (auto simp: js_def)
  with assms show ?thesis
    by (simp add: handle_update_api_def convert_message_api_def resolveUrl_def Let_def)
qed

text \<open>
  White space beyond ASCII ends a link as a space does: after \<^verbatim>\<open>https://\<close> a no-break
  space leaves nothing to extract, and a shortener name behind a no-break space is not
  part of the link.
\<close>

lemma no_break_space_ends_link:
  "map_option fst (regexp_exec urlRegex (js ''https://'' @ [0xA0] @ js ''x'')) = None"
  "snd (handle_update_api newURL all_ok store20
          (Some (from7 (js ''https://'' @ [0xA0] @ js ''x''))))
     = [Send 1 NotAUrl, Respond ''No URL found'']"
  "snd (on_message_bot all_ok store20
          (from7 (js ''https://example.com/x'' @ [0xA0] @ js ''amzn.to/y'')))
     = [Send 1 NotAmazonLink]"
  by code_simp+

text \<open>
  C2, amended. In the bot, for every message that reaches link conversion and whose
  extracted link matches neither the shortener pattern nor the product-link pattern, the
  only effect is the not-an-Amazon-link reply: the resolver is not invoked. In the
  webhook handler there is no such class: every extracted link without an Amazon
  marketplace name in it is handed to the resolver.
\<close>

theorem unmatched_link_bot_rejects_api_resolves:
  "(userId msg \<notin> usersAwaitingTag st \<and> \<not> startsWith (body msg) (js ''/'') \<and>
    regexp_exec urlRegex (body msg) = Some m \<and>
    \<not> regexp_test shortLinkRegex (fst m) \<and> \<not> regexp_test amazonLongLinkRegex (fst m)
      \<longrightarrow> on_message_bot net st msg = (st, [Send (chatId msg) NotAmazonLink])) \<and>
   (\<not> falsy (userTags st (userId msg)) \<and> \<not> startsWith (body msg) (js ''/'') \<and>
    regexp_exec urlRegex (body msg) = Some m \<and>
    \<not> regexp_test anyAmazonDomainRegex (fst m)
      \<longrightarrow> (\<exists>rest. snd (handle_update_api U net st (Some msg))
                   = Send (chatId msg) Resolving # Get (fst m) # rest))"
  using bot_unknown_rejected api_not_amazon_resolved by blast

text \<open>
  \<^verbatim>\<open>https://example.com/x\<close> from user 7, who has a tag: the bot rejects it at once, the
  webhook handler resolves it first.
\<close>

theorem unmatched_link_bot_rejects_api_resolves_witness:
  "snd (on_message_bot all_ok store20 (from7 (js ''https://example.com/x'')))
     = [Send 1 NotAmazonLink] \<and>
   (\<exists>rest. snd (handle_update_api newURL all_ok store20 (Some (from7 (js ''https://example.com/x''))))
            = Send 1 Resolving # Get (js ''https://example.com/x'') # rest)"
proof -
  let ?msg = "from7 (js ''https://example.com/x'')"
  have a: "userId ?msg \<notin> usersAwaitingTag store20"
    by (simp add: store20_def)
  have b: "\<not> falsy (userTags store20 (userId ?msg))"
    by (simp add: store20_def falsy_def from7_def)
  have c: "\<not> startsWith (body ?msg) (js ''/'')"
    by code_simp
  have "map_option fst (regexp_exec urlRegex (body ?msg)) = Some (js ''https://example.com/x'')"
    by code_simp
  then obtain m where d: "regexp_exec urlRegex (body ?msg) = Some m"
    and m: "fst m = (js ''https://example.com/x'')" by auto
  have e: "\<not> regexp_test shortLinkRegex (fst m)"
    "\<not> regexp_test amazonLongLinkRegex (fst m)"
    "\<not> regexp_test anyAmazonDomainRegex (fst m)"
    unfolding m by code_simp+
  from unmatched_link_bot_rejects_api_resolves
         [where st = store20 and msg = ?msg and m = m and net = all_ok and U = newURL]
       a b c d e
  have "on_message_bot all_ok store20 ?msg = (store20, [Send (chatId ?msg) NotAmazonLink])"
    and "\<exists>rest. snd (handle_update_api newURL all_ok store20 (Some ?msg))
              = Send (chatId ?msg) Resolving # Get (fst m) # rest"
    by blast+
  then show ?thesis by (simp add: m from7_def)
qed

section \<open>The redirect resolver\<close>















end
